theory Spec2Isabelle
  imports Complex_Main "HOL-Library.Word" "HOL-Library.Finite_Map"
begin

unbundle bit_operations_syntax

section \<open>SafeBank file integrity monitor\<close>

text \<open>
  A shallow embedding of the integrity engine of \<^verbatim>\<open>monitor_files.py\<close> and
  \<^verbatim>\<open>SafeBank_FIM/monitor.py\<close> (the two modules are copies of one design and differ in
  a few places only), and of the hasher they share with \<^verbatim>\<open>create_baseline.py\<close>.

  What the code obtains from outside the repository is an explicit input of the model: the
  contents of the file system, the clock, the SMTP server, \<^verbatim>\<open>os.path.relpath\<close> and the
  outcome of reading and parsing the baseline file. Python exceptions are values of
  \<open>py_error\<close>; a function that can raise returns \<open>py_error + 'a\<close>.
\<close>

subsection \<open>Bytes, errors, streams\<close>

type_synonym byte = "8 word"
type_synonym w32 = "32 word"

datatype py_error = PyError (exc_class: string) (exc_str: string)

text \<open>
  A binary file object as \<^verbatim>\<open>open(file_path, 'rb')\<close> returns it: the bytes not yet read and,
  when the device is going to fail, the number of reads that still succeed.
\<close>

record stream =
  pending :: "byte list"
  io_fault :: "nat option"

definition read_stream :: "nat \<Rightarrow> stream \<Rightarrow> py_error + (byte list \<times> stream)" where
  "read_stream n f =
     (case io_fault f of
        Some 0 \<Rightarrow> Inl (PyError ''OSError'' ''Input/output error'')
      | Some (Suc k) \<Rightarrow> Inr (take n (pending f), f\<lparr>pending := drop n (pending f), io_fault := Some k\<rparr>)
      | None \<Rightarrow> Inr (take n (pending f), f\<lparr>pending := drop n (pending f)\<rparr>))"

subsection \<open>SHA-256 as \<^verbatim>\<open>hashlib\<close> computes it\<close>

type_synonym sha_state = "w32 \<times> w32 \<times> w32 \<times> w32 \<times> w32 \<times> w32 \<times> w32 \<times> w32"

text \<open>
  The round constants with the primes they come from: the first 32 bits of the fractional
  part of the cube root of each of the first 64 primes.
\<close>

definition K256_table :: "(nat \<times> w32) list" where
  "K256_table =
    [(2, 0x428a2f98), (3, 0x71374491), (5, 0xb5c0fbcf), (7, 0xe9b5dba5),
     (11, 0x3956c25b), (13, 0x59f111f1), (17, 0x923f82a4), (19, 0xab1c5ed5),
     (23, 0xd807aa98), (29, 0x12835b01), (31, 0x243185be), (37, 0x550c7dc3),
     (41, 0x72be5d74), (43, 0x80deb1fe), (47, 0x9bdc06a7), (53, 0xc19bf174),
     (59, 0xe49b69c1), (61, 0xefbe4786), (67, 0x0fc19dc6), (71, 0x240ca1cc),
     (73, 0x2de92c6f), (79, 0x4a7484aa), (83, 0x5cb0a9dc), (89, 0x76f988da),
     (97, 0x983e5152), (101, 0xa831c66d), (103, 0xb00327c8), (107, 0xbf597fc7),
     (109, 0xc6e00bf3), (113, 0xd5a79147), (127, 0x06ca6351), (131, 0x14292967),
     (137, 0x27b70a85), (139, 0x2e1b2138), (149, 0x4d2c6dfc), (151, 0x53380d13),
     (157, 0x650a7354), (163, 0x766a0abb), (167, 0x81c2c92e), (173, 0x92722c85),
     (179, 0xa2bfe8a1), (181, 0xa81a664b), (191, 0xc24b8b70), (193, 0xc76c51a3),
     (197, 0xd192e819), (199, 0xd6990624), (211, 0xf40e3585), (223, 0x106aa070),
     (227, 0x19a4c116), (229, 0x1e376c08), (233, 0x2748774c), (239, 0x34b0bcb5),
     (241, 0x391c0cb3), (251, 0x4ed8aa4a), (257, 0x5b9cca4f), (263, 0x682e6ff3),
     (269, 0x748f82ee), (271, 0x78a5636f), (277, 0x84c87814), (281, 0x8cc70208),
     (283, 0x90befffa), (293, 0xa4506ceb), (307, 0xbef9a3f7), (311, 0xc67178f2)]"

definition K256 :: "w32 list" where
  "K256 = map snd K256_table"

definition cube_root_fraction :: "nat \<Rightarrow> w32 \<Rightarrow> bool" where
  "cube_root_fraction p k \<longleftrightarrow>
     list_ex (\<lambda>c. (c * 2 ^ 32 + unat k) ^ 3 \<le> p * 2 ^ 96
                 \<and> p * 2 ^ 96 < (c * 2 ^ 32 + unat k + 1) ^ 3) [1, 2, 3, 4, 5, 6]"

definition sha256_iv :: sha_state where
  "sha256_iv =
    (0x6a09e667, 0xbb67ae85, 0x3c6ef372, 0xa54ff53a,
     0x510e527f, 0x9b05688c, 0x1f83d9ab, 0x5be0cd19)"

definition Ch :: "w32 \<Rightarrow> w32 \<Rightarrow> w32 \<Rightarrow> w32" where
  "Ch x y z = (x AND y) XOR (NOT x AND z)"

definition Maj :: "w32 \<Rightarrow> w32 \<Rightarrow> w32 \<Rightarrow> w32" where
  "Maj x y z = (x AND y) XOR (x AND z) XOR (y AND z)"

definition bsig0 :: "w32 \<Rightarrow> w32" where
  "bsig0 x = word_rotr 2 x XOR word_rotr 13 x XOR word_rotr 22 x"

definition bsig1 :: "w32 \<Rightarrow> w32" where
  "bsig1 x = word_rotr 6 x XOR word_rotr 11 x XOR word_rotr 25 x"

definition ssig0 :: "w32 \<Rightarrow> w32" where
  "ssig0 x = word_rotr 7 x XOR word_rotr 18 x XOR drop_bit 3 x"

definition ssig1 :: "w32 \<Rightarrow> w32" where
  "ssig1 x = word_rotr 17 x XOR word_rotr 19 x XOR drop_bit 10 x"

definition be_word :: "byte list \<Rightarrow> w32" where
  "be_word bs = foldl (\<lambda>acc b. push_bit 8 acc OR ucast b) 0 bs"

definition block_words :: "byte list \<Rightarrow> w32 list" where
  "block_words blk = map (\<lambda>i. be_word (take 4 (drop (4 * i) blk))) [0..<16]"

fun schedule_ext :: "nat \<Rightarrow> w32 list \<Rightarrow> w32 list" where
  "schedule_ext 0 ws = ws"
| "schedule_ext (Suc n) ws =
     (let t = length ws
      in schedule_ext n
           (ws @ [ssig1 (ws ! (t - 2)) + ws ! (t - 7) + ssig0 (ws ! (t - 15)) + ws ! (t - 16)]))"

definition message_schedule :: "byte list \<Rightarrow> w32 list" where
  "message_schedule blk = schedule_ext 48 (block_words blk)"

fun sha_round :: "sha_state \<Rightarrow> w32 \<times> w32 \<Rightarrow> sha_state" where
  "sha_round (a, b, c, d, e, f, g, h) (k, w) =
     (let t1 = h + bsig1 e + Ch e f g + k + w;
          t2 = bsig0 a + Maj a b c
      in (t1 + t2, a, b, c, d + t1, e, f, g))"

fun add_state :: "sha_state \<Rightarrow> sha_state \<Rightarrow> sha_state" where
  "add_state (a, b, c, d, e, f, g, h) (a', b', c', d', e', f', g', h') =
     (a + a', b + b', c + c', d + d', e + e', f + f', g + g', h + h')"

definition compress :: "sha_state \<Rightarrow> byte list \<Rightarrow> sha_state" where
  "compress H blk = add_state H (foldl sha_round H (zip K256 (message_schedule blk)))"

text \<open>
  The padding of a message of \<open>n\<close> bytes: a one bit, zeros up to 56 modulo 64, and the
  length in bits as a 64-bit big-endian number.
\<close>

definition be64 :: "nat \<Rightarrow> byte list" where
  "be64 n = map (\<lambda>i. ucast (drop_bit (8 * i) (of_nat n :: 64 word))) [7, 6, 5, 4, 3, 2, 1, 0]"

definition sha_padding :: "nat \<Rightarrow> byte list" where
  "sha_padding n = 0x80 # replicate ((119 - n mod 64) mod 64) 0 @ be64 (8 * n)"

text \<open>
  The hash object: chaining value, the bytes of the block not yet complete, and the number
  of bytes fed so far. \<open>absorb\<close> compresses every complete 64-byte block and returns
  what is left.
\<close>

record sha256_acc =
  chain :: sha_state
  buffer :: "byte list"
  total_len :: nat

function absorb :: "sha_state \<Rightarrow> byte list \<Rightarrow> sha_state \<times> byte list" where
  "absorb H bs = (if length bs < 64 then (H, bs) else absorb (compress H (take 64 bs)) (drop 64 bs))"
  by pat_completeness auto
termination
  by (relation "measure (\<lambda>(H, bs). length bs)") auto

declare absorb.simps [simp del]

definition sha256_new :: sha256_acc where
  "sha256_new = \<lparr>chain = sha256_iv, buffer = [], total_len = 0\<rparr>"

definition sha256_update :: "sha256_acc \<Rightarrow> byte list \<Rightarrow> sha256_acc" where
  "sha256_update acc data =
     (case absorb (chain acc) (buffer acc @ data) of
        (H, rest) \<Rightarrow> \<lparr>chain = H, buffer = rest, total_len = total_len acc + length data\<rparr>)"

definition word_bytes :: "w32 \<Rightarrow> byte list" where
  "word_bytes w = map (\<lambda>i. ucast (drop_bit (8 * i) w)) [3, 2, 1, 0]"

fun state_bytes :: "sha_state \<Rightarrow> byte list" where
  "state_bytes (a, b, c, d, e, f, g, h) = concat (map word_bytes [a, b, c, d, e, f, g, h])"

definition sha256_digest :: "sha256_acc \<Rightarrow> byte list" where
  "sha256_digest acc =
     state_bytes (fst (absorb (chain acc) (buffer acc @ sha_padding (total_len acc))))"

definition hex_digit :: "nat \<Rightarrow> char" where
  "hex_digit n = ''0123456789abcdef'' ! (n mod 16)"

definition hex_byte :: "byte \<Rightarrow> string" where
  "hex_byte b = [hex_digit (unat b div 16), hex_digit (unat b mod 16)]"

definition hexdigest :: "sha256_acc \<Rightarrow> string" where
  "hexdigest acc = concat (map hex_byte (sha256_digest acc))"

subsection \<open>One-shot SHA-256 of a whole message\<close>

text \<open>
  The reference the chunked computation is compared with: pad the whole message, cut it
  into 64-byte blocks, and compress them in order from the initial value.
\<close>

function blocks64 :: "byte list \<Rightarrow> byte list list" where
  "blocks64 bs = (if length bs < 64 then [] else take 64 bs # blocks64 (drop 64 bs))"
  by pat_completeness auto
termination
  by (relation "measure length") auto

declare blocks64.simps [simp del]

definition sha256_oneshot :: "byte list \<Rightarrow> byte list" where
  "sha256_oneshot msg =
     state_bytes (foldl compress sha256_iv (blocks64 (msg @ sha_padding (length msg))))"

definition sha256_hex :: "byte list \<Rightarrow> string" where
  "sha256_hex msg = concat (map hex_byte (sha256_oneshot msg))"

subsection \<open>The hasher\<close>

text \<open>
  \<^verbatim>\<open>calculate_file_hash\<close> (the same text in the three files): read 65536 bytes at a time
  until a read returns nothing, feeding each chunk to the hash object. Any exception gives
  \<^verbatim>\<open>None\<close>.
\<close>

function read_loop :: "nat \<Rightarrow> stream \<Rightarrow> sha256_acc \<Rightarrow> py_error + sha256_acc" where
  "read_loop n f acc =
     (case read_stream n f of
        Inl e \<Rightarrow> Inl e
      | Inr (data, f') \<Rightarrow>
          if data = [] then Inr acc
          else read_loop n f' (sha256_update acc data))"
  by pat_completeness auto
termination
proof (relation "measure (\<lambda>(n, f, acc). length (pending f))", goal_cases)
  case 1
  show ?case by simp
next
  case (2 n f acc x2 data f')
  then show ?case
    by (cases "n = 0") (auto simp: read_stream_def split: option.splits nat.splits)
qed

declare read_loop.simps [simp del]

definition hash_file ::
  "(string \<Rightarrow> py_error + stream) \<Rightarrow> string \<Rightarrow> py_error + string" where
  "hash_file opener file_path =
     (case opener file_path of
        Inl e \<Rightarrow> Inl e
      | Inr f \<Rightarrow>
          (case read_loop 65536 f sha256_new of
             Inl e \<Rightarrow> Inl e
           | Inr acc \<Rightarrow> Inr (hexdigest acc)))"

subsection \<open>Data of the engine\<close>

text \<open>
  The baseline in the layout \<^verbatim>\<open>create_baseline.py\<close> writes. A key that the code reads with
  \<^verbatim>\<open>.get\<close> and a default is optional. Python dictionaries are finite maps.
\<close>

record metadata =
  created :: "string option"
  directory :: "string option"
  total_files :: "int option"

record file_entry =
  hash :: string
  fsize :: int
  last_modified :: real
  permissions :: string

record baseline =
  metadata :: "metadata option"
  files :: "(string, file_entry) fmap"

record alert =
  a_time :: string
  a_type :: string
  a_file :: string
  a_path :: string
  a_details :: string

record dashboard =
  alerts :: "alert list"
  last_scan :: "string option"
  file_count :: int
  last_update :: "string option"

datatype log_entry = Log_info string | Log_warning string | Log_error string | Print string

text \<open>
  The mutable state: the global \<^verbatim>\<open>DASHBOARD_DATA\<close> and what has been written to the log
  and to standard output, oldest first.
\<close>

record world =
  DASHBOARD_DATA :: dashboard
  logged :: "log_entry list"

record email_config =
  smtp_server :: "string option"
  smtp_port :: "int option"
  sender_email :: "string option"
  sender_password :: "string option"
  recipient_emails :: "string list option"

record email_message =
  msg_From :: string
  msg_To :: string
  msg_Subject :: string
  msg_body :: string

text \<open>
  What the surroundings answer while one event is handled: the file system, the path
  arithmetic of the platform, the three readings of the clock (in \<^verbatim>\<open>send_alert\<close>, in the
  alert record, in \<^verbatim>\<open>_update_dashboard_data\<close>, each already formatted), the steps of the
  SMTP session, what \<^verbatim>\<open>print\<close> does with a line (standard output may refuse it: a
  character it cannot encode, a closed pipe), and the result of opening and parsing the
  baseline file. The logging calls do not raise: the logging module keeps the errors of its
  handlers to itself.
\<close>

record env =
  open_rb :: "string \<Rightarrow> py_error + stream"
  relpath :: "string \<Rightarrow> string \<Rightarrow> py_error + string"
  now_email :: string
  now_alert :: string
  now_update :: string
  smtp_connect :: "string \<Rightarrow> int \<Rightarrow> py_error + unit"
  smtp_starttls :: "py_error + unit"
  smtp_login :: "string \<Rightarrow> string \<Rightarrow> py_error + unit"
  smtp_send_message :: "email_message \<Rightarrow> py_error + unit"
  stdout_write :: "string \<Rightarrow> py_error + unit"
  read_baseline_file :: "py_error + baseline"

datatype module_id = Monitor_Files | SafeBank_FIM

record handler =
  baseline_of :: baseline
  email_system :: email_config
  monitor_dir :: string

datatype event_kind = Modified | Created | Deleted | Other_kind

record event =
  src_path :: string
  is_directory :: bool
  event_type :: event_kind

subsection \<open>Python library functions on strings and lists\<close>

definition try_bind :: "py_error + 'a \<Rightarrow> ('a \<Rightarrow> py_error + 'b) \<Rightarrow> py_error + 'b" where
  "try_bind r k = (case r of Inl e \<Rightarrow> Inl e | Inr v \<Rightarrow> k v)"

definition is_space :: "char \<Rightarrow> bool" where
  "is_space c = (c \<in> set [CHR '' '', CHR 0x09, CHR 0x0A, CHR 0x0B, CHR 0x0C, CHR 0x0D,
                          CHR 0x1C, CHR 0x1D, CHR 0x1E, CHR 0x1F])"

fun py_split_from :: "string \<Rightarrow> string \<Rightarrow> string list" where
  "py_split_from cur [] = (if cur = [] then [] else [cur])"
| "py_split_from cur (c # cs) =
     (if is_space c then (if cur = [] then py_split_from [] cs else cur # py_split_from [] cs)
      else py_split_from (cur @ [c]) cs)"

definition py_split :: "string \<Rightarrow> string list" where
  "py_split s = py_split_from [] s"

definition py_join :: "string \<Rightarrow> string list \<Rightarrow> string" where
  "py_join sep xs = (case xs of [] \<Rightarrow> [] | y # ys \<Rightarrow> y @ concat (map (\<lambda>z. sep @ z) ys))"

definition basename :: "string \<Rightarrow> string" where
  "basename p = rev (takeWhile (\<lambda>c. c \<noteq> CHR ''/'') (rev p))"

definition py_last_n :: "nat \<Rightarrow> 'a list \<Rightarrow> 'a list" where
  "py_last_n n xs = drop (length xs - n) xs"

definition dict_get :: "(string \<times> 'v) list \<Rightarrow> string \<Rightarrow> 'v \<Rightarrow> 'v" where
  "dict_get d k dflt = (case map_of d k of None \<Rightarrow> dflt | Some v \<Rightarrow> v)"

definition config_item :: "string \<Rightarrow> 'a option \<Rightarrow> py_error + 'a" where
  "config_item key v =
     (case v of None \<Rightarrow> Inl (PyError ''KeyError'' ([CHR 0x27] @ key @ [CHR 0x27])) | Some x \<Rightarrow> Inr x)"

fun str_nat :: "nat \<Rightarrow> string" where
  "str_nat n =
     (if n < 10 then [''0123456789'' ! n] else str_nat (n div 10) @ [''0123456789'' ! (n mod 10)])"

declare str_nat.simps [simp del]

definition log_add :: "log_entry list \<Rightarrow> world \<Rightarrow> world" where
  "log_add es w = w\<lparr>logged := logged w @ es\<rparr>"

subsection \<open>\<^verbatim>\<open>EmailAlertSystem.send_alert\<close>\<close>

definition email_subject :: "module_id \<Rightarrow> string \<Rightarrow> string" where
  "email_subject m alert_type =
     (case m of Monitor_Files \<Rightarrow> ''FIM Alert: '' | SafeBank_FIM \<Rightarrow> ''FIM Security Alert: '')
     @ alert_type"

definition email_body :: "module_id \<Rightarrow> env \<Rightarrow> string \<Rightarrow> string \<Rightarrow> string \<Rightarrow> string" where
  "email_body m env alert_type file_path details =
     [CHR 0x0A] @
     concat (map (\<lambda>l. replicate 8 CHR '' '' @ l @ [CHR 0x0A])
       [''SafeBank File Integrity Alert'',
        ''----------------------------'',
        ''Type: '' @ alert_type,
        ''File: '' @ basename file_path,
        ''Path: '' @ file_path,
        ''Time: '' @ now_email env,
        ''Details: '' @ details,
        [],
        (case m of Monitor_Files \<Rightarrow> ''This requires immediate investigation.''
         | SafeBank_FIM \<Rightarrow> ''Action Required: Investigate immediately.'')])
     @ replicate 8 CHR '' ''"

text \<open>The body of the \<^verbatim>\<open>try\<close> block of \<^verbatim>\<open>send_alert\<close>, statement by statement.\<close>

definition send_alert_try :: "env \<Rightarrow> email_config \<Rightarrow> string \<Rightarrow> string \<Rightarrow> py_error + unit" where
  "send_alert_try env cfg subject body =
     try_bind (config_item ''sender_email'' (sender_email cfg)) (\<lambda>from.
     try_bind (config_item ''recipient_emails'' (recipient_emails cfg)) (\<lambda>rcpts.
     try_bind (config_item ''smtp_server'' (smtp_server cfg)) (\<lambda>server.
     try_bind (config_item ''smtp_port'' (smtp_port cfg)) (\<lambda>port.
     try_bind (smtp_connect env server port) (\<lambda>_.
     try_bind (smtp_starttls env) (\<lambda>_.
     try_bind (config_item ''sender_email'' (sender_email cfg)) (\<lambda>user.
     try_bind (config_item ''sender_password'' (sender_password cfg)) (\<lambda>password.
     try_bind (smtp_login env user password) (\<lambda>_.
     smtp_send_message env
       \<lparr>msg_From = from, msg_To = py_join '', '' rcpts,
        msg_Subject = subject, msg_body = body\<rparr>)))))))))"

definition fallback_line :: "module_id \<Rightarrow> string \<Rightarrow> string \<Rightarrow> string \<Rightarrow> string" where
  "fallback_line m alert_type file_path details =
     (case m of Monitor_Files \<Rightarrow> ''ALERT: '' | SafeBank_FIM \<Rightarrow> ''SECURITY ALERT: '')
     @ email_subject m alert_type @ '' - '' @ file_path @ '' - '' @ details"

text \<open>
  \<^verbatim>\<open>send_alert\<close>. What the \<^verbatim>\<open>try\<close> block raises is caught; the handler logs it and
  prints the alert, and what the \<^verbatim>\<open>print\<close> of the handler raises leaves the function.
\<close>

definition send_alert ::
  "module_id \<Rightarrow> env \<Rightarrow> email_config \<Rightarrow> world \<Rightarrow> string \<Rightarrow> string \<Rightarrow> string
     \<Rightarrow> (py_error + bool) \<times> world" where
  "send_alert m env cfg w alert_type file_path details =
     (let subject = email_subject m alert_type;
          body = email_body m env alert_type file_path details
      in case send_alert_try env cfg subject body of
           Inr _ \<Rightarrow> (Inr True, log_add [Log_info (''Email alert sent: '' @ subject)] w)
         | Inl e \<Rightarrow>
             (let w1 = log_add [Log_error (''Email failed: '' @ exc_str e)] w;
                  line = fallback_line m alert_type file_path details
              in case stdout_write env line of
                   Inl e' \<Rightarrow> (Inl e', w1)
                 | Inr _ \<Rightarrow> (Inr False, log_add [Print line] w1)))"

subsection \<open>\<^verbatim>\<open>FileChangeHandler\<close>\<close>

definition calculate_file_hash :: "env \<Rightarrow> world \<Rightarrow> string \<Rightarrow> string option \<times> world" where
  "calculate_file_hash env w file_path =
     (case hash_file (open_rb env) file_path of
        Inr digest \<Rightarrow> (Some digest, w)
      | Inl e \<Rightarrow> (None, log_add [Log_error (''Hash calculation failed: '' @ exc_str e)] w))"

text \<open>
  The function of the same name in \<^verbatim>\<open>create_baseline.py\<close> prints instead of logging,
  and what its \<^verbatim>\<open>print\<close> raises leaves the function.
\<close>

definition calculate_file_hash_cb ::
  "env \<Rightarrow> world \<Rightarrow> string \<Rightarrow> (py_error + string option) \<times> world" where
  "calculate_file_hash_cb env w file_path =
     (case hash_file (open_rb env) file_path of
        Inr digest \<Rightarrow> (Inr (Some digest), w)
      | Inl e \<Rightarrow>
          (let line = ''Error calculating hash for '' @ file_path @ '': '' @ exc_str e
           in case stdout_write env line of
                Inl e' \<Rightarrow> (Inl e', w)
              | Inr _ \<Rightarrow> (Inr None, log_add [Print line] w)))"

definition details_table :: "module_id \<Rightarrow> (string \<times> string) list" where
  "details_table m =
     (case m of
        Monitor_Files \<Rightarrow>
          [(''MODIFIED'', ''File content changed''),
           (''CREATED'', ''New file appeared''),
           (''DELETED'', ''Critical file removed'')]
      | SafeBank_FIM \<Rightarrow>
          [(''MODIFIED'', ''Unauthorized content modification detected''),
           (''CREATED'', ''Unauthorized file added to system''),
           (''DELETED'', ''Critical file removed without authorization'')])"

definition details_default :: "module_id \<Rightarrow> string" where
  "details_default m =
     (case m of Monitor_Files \<Rightarrow> ''Unknown change''
      | SafeBank_FIM \<Rightarrow> ''Security-related change detected'')"

text \<open>
  The first statement of \<^verbatim>\<open>_trigger_alert\<close>: the dictionary is asked for the last word of
  the alert type; \<^verbatim>\<open>split()[-1]\<close> raises when there is no word.
\<close>

definition details_for :: "module_id \<Rightarrow> string \<Rightarrow> py_error + string" where
  "details_for m alert_type =
     (case py_split alert_type of
        [] \<Rightarrow> Inl (PyError ''IndexError'' ''list index out of range'')
      | x # xs \<Rightarrow> Inr (dict_get (details_table m) (last (x # xs)) (details_default m)))"

definition new_alert :: "env \<Rightarrow> string \<Rightarrow> string \<Rightarrow> string \<Rightarrow> alert" where
  "new_alert env alert_type file_path details =
     \<lparr>a_time = now_alert env, a_type = alert_type, a_file = basename file_path,
      a_path = file_path, a_details = details\<rparr>"

definition append_alert :: "alert \<Rightarrow> world \<Rightarrow> world" where
  "append_alert a w =
     (let appended = alerts (DASHBOARD_DATA w) @ [a]
      in w\<lparr>DASHBOARD_DATA := (DASHBOARD_DATA w)
             \<lparr>alerts := (if length appended > 50 then py_last_n 50 appended else appended)\<rparr>\<rparr>)"

definition trigger_alert ::
  "module_id \<Rightarrow> env \<Rightarrow> handler \<Rightarrow> world \<Rightarrow> string \<Rightarrow> string \<Rightarrow> (py_error + unit) \<times> world" where
  "trigger_alert m env h w alert_type file_path =
     (case details_for m alert_type of
        Inl e \<Rightarrow> (Inl e, w)
      | Inr details \<Rightarrow>
          (let w1 = log_add [Log_warning (alert_type @ '': '' @ file_path)] w
           in case send_alert m env (email_system h) w1 alert_type file_path details of
                (Inl e, w2) \<Rightarrow> (Inl e, w2)
              | (Inr sent, w2) \<Rightarrow>
                  (Inr (), append_alert (new_alert env alert_type file_path details) w2)))"

definition process_event_try ::
  "module_id \<Rightarrow> env \<Rightarrow> handler \<Rightarrow> world \<Rightarrow> string \<Rightarrow> string \<Rightarrow> (py_error + unit) \<times> world" where
  "process_event_try m env h w file_path change_type =
     (case relpath env file_path (monitor_dir h) of
        Inl e \<Rightarrow> (Inl e, w)
      | Inr relative_path \<Rightarrow>
          if change_type = ''MODIFIED'' then
            (case calculate_file_hash env w file_path of
               (current_hash, w1) \<Rightarrow>
                 (case current_hash of
                    None \<Rightarrow> (Inr (), w1)
                  | Some digest \<Rightarrow>
                      if digest \<noteq> [] \<and> relative_path |\<in>| fmdom (files (baseline_of h)) then
                        (case fmlookup (files (baseline_of h)) relative_path of
                           None \<Rightarrow> (Inl (PyError ''KeyError'' relative_path), w1)
                         | Some entry \<Rightarrow>
                             if digest \<noteq> hash entry
                             then trigger_alert m env h w1 ''File Modified'' file_path
                             else (Inr (), w1))
                      else (Inr (), w1)))
          else if change_type = ''CREATED'' then
            (if relative_path |\<notin>| fmdom (files (baseline_of h))
             then trigger_alert m env h w ''New File Detected'' file_path
             else (Inr (), w))
          else if change_type = ''DELETED'' then
            (if relative_path |\<in>| fmdom (files (baseline_of h))
             then trigger_alert m env h w ''File Deleted'' file_path
             else (Inr (), w))
          else (Inr (), w))"

definition process_event ::
  "module_id \<Rightarrow> env \<Rightarrow> handler \<Rightarrow> world \<Rightarrow> string \<Rightarrow> string \<Rightarrow> world" where
  "process_event m env h w file_path change_type =
     (case process_event_try m env h w file_path change_type of
        (Inr _, w') \<Rightarrow> w'
      | (Inl e, w') \<Rightarrow> log_add [Log_error (''Error processing event: '' @ exc_str e)] w')"

definition update_dashboard_data :: "env \<Rightarrow> handler \<Rightarrow> world \<Rightarrow> world" where
  "update_dashboard_data env h w =
     w\<lparr>DASHBOARD_DATA := (DASHBOARD_DATA w)
        \<lparr>file_count := int (fcard (fmdom (files (baseline_of h)))),
         last_scan :=
           Some (case metadata (baseline_of h) of
                   None \<Rightarrow> ''Never''
                 | Some md \<Rightarrow> (case created md of None \<Rightarrow> ''Never'' | Some c \<Rightarrow> c)),
         last_update := Some (now_update env)\<rparr>\<rparr>"

definition after_event :: "module_id \<Rightarrow> env \<Rightarrow> handler \<Rightarrow> world \<Rightarrow> world" where
  "after_event m env h w =
     (case m of Monitor_Files \<Rightarrow> w | SafeBank_FIM \<Rightarrow> update_dashboard_data env h w)"

definition on_modified :: "module_id \<Rightarrow> env \<Rightarrow> handler \<Rightarrow> world \<Rightarrow> event \<Rightarrow> world" where
  "on_modified m env h w ev =
     (if \<not> is_directory ev
      then after_event m env h (process_event m env h w (src_path ev) ''MODIFIED'')
      else w)"

definition on_created :: "module_id \<Rightarrow> env \<Rightarrow> handler \<Rightarrow> world \<Rightarrow> event \<Rightarrow> world" where
  "on_created m env h w ev =
     (if \<not> is_directory ev
      then after_event m env h (process_event m env h w (src_path ev) ''CREATED'')
      else w)"

definition on_deleted :: "module_id \<Rightarrow> env \<Rightarrow> handler \<Rightarrow> world \<Rightarrow> event \<Rightarrow> world" where
  "on_deleted m env h w ev =
     (if \<not> is_directory ev
      then after_event m env h (process_event m env h w (src_path ev) ''DELETED'')
      else w)"

text \<open>
  The routing of the watcher's base class: an event reaches the method of its kind; the
  methods the handler does not override do nothing.
\<close>

definition dispatch :: "module_id \<Rightarrow> env \<Rightarrow> handler \<Rightarrow> world \<Rightarrow> event \<Rightarrow> world" where
  "dispatch m env h w ev =
     (case event_type ev of
        Modified \<Rightarrow> on_modified m env h w ev
      | Created \<Rightarrow> on_created m env h w ev
      | Deleted \<Rightarrow> on_deleted m env h w ev
      | Other_kind \<Rightarrow> w)"

subsection \<open>Start-up\<close>

definition initial_dashboard :: dashboard where
  "initial_dashboard = \<lparr>alerts = [], last_scan = None, file_count = 0, last_update = None\<rparr>"

definition initial_world :: world where
  "initial_world = \<lparr>DASHBOARD_DATA = initial_dashboard, logged = []\<rparr>"

definition empty_baseline :: baseline where
  "empty_baseline =
     \<lparr>metadata = Some \<lparr>created = None, directory = None, total_files = None\<rparr>,
      files = fmempty\<rparr>"

definition metadata_get :: "baseline \<Rightarrow> (metadata \<Rightarrow> 'a option) \<Rightarrow> 'a \<Rightarrow> 'a" where
  "metadata_get b field dflt =
     (case metadata b of
        None \<Rightarrow> dflt
      | Some md \<Rightarrow> (case field md of None \<Rightarrow> dflt | Some v \<Rightarrow> v))"

definition load_baseline :: "module_id \<Rightarrow> env \<Rightarrow> world \<Rightarrow> baseline \<times> world" where
  "load_baseline m env w =
     (case read_baseline_file env of
        Inr b \<Rightarrow>
          (case m of
             Monitor_Files \<Rightarrow>
               (b, w\<lparr>DASHBOARD_DATA := (DASHBOARD_DATA w)
                      \<lparr>file_count := metadata_get b total_files 0,
                       last_scan := Some (metadata_get b created ''Never'')\<rparr>\<rparr>)
           | SafeBank_FIM \<Rightarrow>
               (b, log_add [Log_info (''Loaded baseline with ''
                                       @ str_nat (fcard (fmdom (files b))) @ '' files'')] w))
      | Inl e \<Rightarrow>
          (empty_baseline, log_add [Log_error (''Error loading baseline: '' @ exc_str e)] w))"

definition new_handler ::
  "module_id \<Rightarrow> env \<Rightarrow> baseline \<Rightarrow> email_config \<Rightarrow> string \<Rightarrow> world \<Rightarrow> handler \<times> world" where
  "new_handler m env b cfg dir w =
     (let h = \<lparr>baseline_of = b, email_system = cfg, monitor_dir = dir\<rparr>
      in (h, after_event m env h w))"

subsection \<open>What is observed of a run\<close>

text \<open>
  Every call of \<^verbatim>\<open>_trigger_alert\<close> that gets past its first statement writes one line at
  warning level, and nothing else does: the warning lines of the log are the alerts raised
  so far, also those the bounded history has dropped.
\<close>

fun warning_text :: "log_entry \<Rightarrow> string option" where
  "warning_text (Log_warning s) = Some s"
| "warning_text _ = None"

definition alerts_raised :: "world \<Rightarrow> string list" where
  "alerts_raised w = List.map_filter warning_text (logged w)"

text \<open>What the dashboard page shows of the state: the two counters and the two times.\<close>

record status_snapshot =
  filesTracked :: int
  lastBaselineCreatedAt :: "string option"
  alertCount :: nat
  lastUpdatedAt :: "string option"

definition snapshot :: "world \<Rightarrow> status_snapshot" where
  "snapshot w =
     \<lparr>filesTracked = file_count (DASHBOARD_DATA w),
      lastBaselineCreatedAt = last_scan (DASHBOARD_DATA w),
      alertCount = length (alerts (DASHBOARD_DATA w)),
      lastUpdatedAt = last_update (DASHBOARD_DATA w)\<rparr>"

text \<open>
  Whether the notification of an alert raises: the mail cannot be sent and the line
  printed in its place is refused. Nothing else in \<^verbatim>\<open>send_alert\<close> gets out of it.
\<close>

definition notification_raises ::
  "module_id \<Rightarrow> env \<Rightarrow> email_config \<Rightarrow> string \<Rightarrow> string \<Rightarrow> string \<Rightarrow> bool" where
  "notification_raises m env cfg alert_type file_path details =
     (case send_alert_try env cfg (email_subject m alert_type)
             (email_body m env alert_type file_path details) of
        Inr _ \<Rightarrow> False
      | Inl e \<Rightarrow>
          (case stdout_write env (fallback_line m alert_type file_path details) of
             Inl e' \<Rightarrow> True
           | Inr _ \<Rightarrow> False))"

text \<open>
  The \<^verbatim>\<open>except\<close> clause of \<^verbatim>\<open>_process_event\<close>, around one alert trigger: what the
  trigger raises is logged and the state is kept as the trigger left it.
\<close>

definition caught :: "(py_error + unit) \<times> world \<Rightarrow> world" where
  "caught r =
     (case r of
        (Inr _, w') \<Rightarrow> w'
      | (Inl e, w') \<Rightarrow> log_add [Log_error (''Error processing event: '' @ exc_str e)] w')"

text \<open>
  A sequence of alert triggers, each with the surroundings of its moment and each inside
  the \<^verbatim>\<open>try\<close> block of its event, and the triggers of the sequence that run to their
  end.
\<close>

fun trigger_all ::
  "module_id \<Rightarrow> handler \<Rightarrow> world \<Rightarrow> (env \<times> string \<times> string) list \<Rightarrow> world" where
  "trigger_all m h w [] = w"
| "trigger_all m h w ((env, alert_type, file_path) # ts) =
     trigger_all m h (caught (trigger_alert m env h w alert_type file_path)) ts"

definition completes :: "module_id \<Rightarrow> handler \<Rightarrow> env \<times> string \<times> string \<Rightarrow> bool" where
  "completes m h t =
     (case t of (env, alert_type, file_path) \<Rightarrow>
        (case details_for m alert_type of
           Inl e \<Rightarrow> False
         | Inr details \<Rightarrow>
             \<not> notification_raises m env (email_system h) alert_type file_path details))"

definition alert_of :: "module_id \<Rightarrow> env \<times> string \<times> string \<Rightarrow> alert" where
  "alert_of m t =
     (case t of (env, alert_type, file_path) \<Rightarrow>
        new_alert env alert_type file_path
          (dict_get (details_table m) (last (py_split alert_type)) (details_default m)))"

text \<open>The hash object has taken in exactly the message \<open>msg\<close>.\<close>

definition absorbed :: "sha256_acc \<Rightarrow> byte list \<Rightarrow> bool" where
  "absorbed acc msg \<longleftrightarrow>
     absorb sha256_iv msg = (chain acc, buffer acc) \<and> total_len acc = length msg"

subsection \<open>An installation to compute with\<close>

text \<open>
  A monitored directory \<^verbatim>\<open>/srv/bank\<close> holding \<^verbatim>\<open>a.txt\<close> with the three bytes
  \<^verbatim>\<open>abc\<close>, a baseline that knows this file, a mail server that refuses connections,
  and a standard output that takes every line.
\<close>

definition ex_open :: "string \<Rightarrow> py_error + stream" where
  "ex_open p =
     (if p = ''/srv/bank/a.txt'' then Inr \<lparr>pending = [0x61, 0x62, 0x63], io_fault = None\<rparr>
      else Inl (PyError ''FileNotFoundError'' ''No such file or directory''))"

definition ex_relpath :: "string \<Rightarrow> string \<Rightarrow> py_error + string" where
  "ex_relpath p d =
     (if p = [] then Inl (PyError ''ValueError'' ''no path specified'')
      else Inr (drop (Suc (length d)) p))"

definition ex_env :: env where
  "ex_env =
     \<lparr>open_rb = ex_open, relpath = ex_relpath,
      now_email = ''2025-03-01 10:00:00'', now_alert = ''2025-03-01 10:00:01'',
      now_update = ''2025-03-01T10:00:01.000000'',
      smtp_connect = (\<lambda>server port. Inl (PyError ''ConnectionRefusedError'' ''Connection refused'')),
      smtp_starttls = Inr (), smtp_login = (\<lambda>user password. Inr ()),
      smtp_send_message = (\<lambda>msg. Inr ()),
      stdout_write = (\<lambda>line. Inr ()),
      read_baseline_file = Inl (PyError ''FileNotFoundError'' ''No such file or directory'')\<rparr>"

definition ex_config :: email_config where
  "ex_config =
     \<lparr>smtp_server = Some ''smtp.gmail.com'', smtp_port = Some 587,
      sender_email = Some ''fim@example.org'', sender_password = Some ''secret'',
      recipient_emails = Some [''admin@example.org'']\<rparr>"

definition ex_entry :: "string \<Rightarrow> file_entry" where
  "ex_entry digest = \<lparr>hash = digest, fsize = 3, last_modified = 1740823200, permissions = ''0644''\<rparr>"

definition ex_baseline :: "string \<Rightarrow> baseline" where
  "ex_baseline digest =
     \<lparr>metadata = Some \<lparr>created = Some ''2025-03-01T09:00:00'',
                        directory = Some ''/srv/bank'', total_files = Some 1\<rparr>,
      files = fmupd ''a.txt'' (ex_entry digest) fmempty\<rparr>"

definition ex_handler :: "string \<Rightarrow> handler" where
  "ex_handler digest =
     \<lparr>baseline_of = ex_baseline digest, email_system = ex_config, monitor_dir = ''/srv/bank''\<rparr>"

definition ex_event :: "string \<Rightarrow> event_kind \<Rightarrow> event" where
  "ex_event p k = \<lparr>src_path = p, is_directory = False, event_type = k\<rparr>"

definition abc_digest :: string where
  "abc_digest = ''ba7816bf8f01cfea414140de5dae2223b00361a396177a9cb410ff61f20015ad''"

definition empty_digest :: string where
  "empty_digest = ''e3b0c44298fc1c149afbf4c8996fb92427ae41e4649b934ca495991b7852b855''"

text \<open>A baseline whose metadata counts more files than it lists.\<close>

definition ex_stale_baseline :: baseline where
  "ex_stale_baseline =
     \<lparr>metadata = Some \<lparr>created = Some ''2025-03-01T09:00:00'',
                        directory = Some ''/srv/bank'', total_files = Some 3\<rparr>,
      files = fmupd ''a.txt'' (ex_entry abc_digest) fmempty\<rparr>"

text \<open>
  A standard output with the strict UTF-8 encoding, which refuses the character Python
  puts in a file name for the byte \<^verbatim>\<open>0xFF\<close>, and a file with such a name.
\<close>

definition ex_strict_stdout :: "string \<Rightarrow> py_error + unit" where
  "ex_strict_stdout line =
     (if CHR 0xFF \<in> set line
      then Inl (PyError ''UnicodeEncodeError'' ''surrogates not allowed'')
      else Inr ())"

definition ex_strict_env :: env where
  "ex_strict_env = ex_env\<lparr>stdout_write := ex_strict_stdout\<rparr>"

definition ex_odd_path :: string where
  "ex_odd_path = ''/srv/bank/report'' @ [CHR 0xFF] @ ''.csv''"

section \<open>What one alert trigger does\<close>

lemma alerts_raised_log_add:
  "alerts_raised (log_add es w) = alerts_raised w @ List.map_filter warning_text es"
  by (simp add: alerts_raised_def log_add_def List.map_filter_def)

lemma dashboard_log_add: "DASHBOARD_DATA (log_add es w) = DASHBOARD_DATA w"
  by (simp add: log_add_def)

lemma send_alert_returns:
  "\<not> notification_raises m env cfg alert_type file_path details \<Longrightarrow>
     fst (send_alert m env cfg w alert_type file_path details) =
       Inr (case send_alert_try env cfg (email_subject m alert_type)
                   (email_body m env alert_type file_path details) of
              Inl e \<Rightarrow> False | Inr u \<Rightarrow> True)"
  by (simp add: send_alert_def notification_raises_def Let_def split: sum.splits)

lemma send_alert_raises:
  "notification_raises m env cfg alert_type file_path details \<Longrightarrow>
     \<exists>e. stdout_write env (fallback_line m alert_type file_path details) = Inl e
       \<and> fst (send_alert m env cfg w alert_type file_path details) = Inl e"
  by (simp add: send_alert_def notification_raises_def Let_def split: sum.splits)

lemma send_alert_dashboard:
  "DASHBOARD_DATA (snd (send_alert m env cfg w alert_type file_path details)) = DASHBOARD_DATA w"
  by (simp add: send_alert_def Let_def dashboard_log_add split: sum.splits)

lemma send_alert_raised:
  "alerts_raised (snd (send_alert m env cfg w alert_type file_path details)) = alerts_raised w"
  by (simp add: send_alert_def Let_def alerts_raised_log_add List.map_filter_def split: sum.splits)

lemma append_alert_alerts:
  "alerts (DASHBOARD_DATA (append_alert a w)) = py_last_n 50 (alerts (DASHBOARD_DATA w) @ [a])"
  by (simp add: append_alert_def Let_def py_last_n_def)

lemma append_alert_raised: "alerts_raised (append_alert a w) = alerts_raised w"
  by (simp add: append_alert_def Let_def alerts_raised_def)

lemma details_for_words:
  "py_split alert_type \<noteq> [] \<Longrightarrow>
     details_for m alert_type =
       Inr (dict_get (details_table m) (last (py_split alert_type)) (details_default m))"
  by (cases "py_split alert_type") (simp_all add: details_for_def)

lemma py_split_types:
  "py_split ''File Modified'' = [''File'', ''Modified'']"
  "py_split ''New File Detected'' = [''New'', ''File'', ''Detected'']"
  "py_split ''File Deleted'' = [''File'', ''Deleted'']"
  by (simp_all add: py_split_def is_space_def)

lemma details_for_types:
  "details_for m ''File Modified'' = Inr (details_default m)"
  "details_for m ''New File Detected'' = Inr (details_default m)"
  "details_for m ''File Deleted'' = Inr (details_default m)"
  by (cases m; simp add: details_for_def py_split_types dict_get_def details_table_def)+

lemma caught_raised: "alerts_raised (caught r) = alerts_raised (snd r)"
  by (cases r) (simp add: caught_def alerts_raised_log_add List.map_filter_def split: sum.splits)

lemma caught_dashboard: "DASHBOARD_DATA (caught r) = DASHBOARD_DATA (snd r)"
  by (cases r) (simp add: caught_def dashboard_log_add split: sum.splits)

text \<open>
  One alert trigger that has got its details: the warning line is written in every case;
  the alert is appended to the history unless the notification raises, and then the
  history is left as it was.
\<close>

lemma trigger_alert_done:
  assumes "details_for m alert_type = Inr details"
  shows "alerts_raised (snd (trigger_alert m env h w alert_type file_path))
           = alerts_raised w @ [alert_type @ '': '' @ file_path]"
    and "alerts (DASHBOARD_DATA (snd (trigger_alert m env h w alert_type file_path)))
           = (if notification_raises m env (email_system h) alert_type file_path details
              then alerts (DASHBOARD_DATA w)
              else py_last_n 50 (alerts (DASHBOARD_DATA w)
                     @ [new_alert env alert_type file_path details]))"
    and "(fst (trigger_alert m env h w alert_type file_path) = Inr ())
           = (\<not> notification_raises m env (email_system h) alert_type file_path details)"
proof -
  let ?w1 = "log_add [Log_warning (alert_type @ '': '' @ file_path)] w"
  let ?s = "send_alert m env (email_system h) ?w1 alert_type file_path details"
  obtain r w2 where s: "?s = (r, w2)" by (cases ?s)
  have d: "DASHBOARD_DATA w2 = DASHBOARD_DATA w"
    using send_alert_dashboard [of m env "email_system h" ?w1 alert_type file_path details] s
    by (simp add: dashboard_log_add)
  have l: "alerts_raised w2 = alerts_raised w @ [alert_type @ '': '' @ file_path]"
    using send_alert_raised [of m env "email_system h" ?w1 alert_type file_path details] s
    by (simp add: alerts_raised_log_add List.map_filter_def)
  have t: "trigger_alert m env h w alert_type file_path
             = (case r of Inl e \<Rightarrow> (Inl e, w2)
                | Inr sent \<Rightarrow> (Inr (), append_alert (new_alert env alert_type file_path details) w2))"
    using assms s by (simp add: trigger_alert_def Let_def)
  show "alerts_raised (snd (trigger_alert m env h w alert_type file_path))
           = alerts_raised w @ [alert_type @ '': '' @ file_path]"
    by (cases r) (simp_all add: t append_alert_raised l)
  show "alerts (DASHBOARD_DATA (snd (trigger_alert m env h w alert_type file_path)))
           = (if notification_raises m env (email_system h) alert_type file_path details
              then alerts (DASHBOARD_DATA w)
              else py_last_n 50 (alerts (DASHBOARD_DATA w)
                     @ [new_alert env alert_type file_path details]))"
  proof (cases "notification_raises m env (email_system h) alert_type file_path details")
    case True
    from send_alert_raises [OF True, of ?w1] s obtain e where "r = Inl e" by auto
    with True show ?thesis by (simp add: t d)
  next
    case False
    from send_alert_returns [OF False, of ?w1] s obtain b where "r = Inr b" by simp
    with False show ?thesis by (simp add: t d append_alert_alerts)
  qed
  show "(fst (trigger_alert m env h w alert_type file_path) = Inr ())
           = (\<not> notification_raises m env (email_system h) alert_type file_path details)"
  proof (cases "notification_raises m env (email_system h) alert_type file_path details")
    case True
    from send_alert_raises [OF True, of ?w1] s obtain e where "r = Inl e" by auto
    with True show ?thesis by (simp add: t)
  next
    case False
    from send_alert_returns [OF False, of ?w1] s obtain b where "r = Inr b" by simp
    with False show ?thesis by (simp add: t)
  qed
qed

lemma caught_trigger_alert:
  assumes "details_for m alert_type = Inr details"
  shows "alerts_raised (caught (trigger_alert m env h w alert_type file_path))
           = alerts_raised w @ [alert_type @ '': '' @ file_path]"
    and "alerts (DASHBOARD_DATA (caught (trigger_alert m env h w alert_type file_path)))
           = (if notification_raises m env (email_system h) alert_type file_path details
              then alerts (DASHBOARD_DATA w)
              else py_last_n 50 (alerts (DASHBOARD_DATA w)
                     @ [new_alert env alert_type file_path details]))"
  by (simp_all only: caught_raised caught_dashboard trigger_alert_done(1,2) [OF assms])

lemma trigger_alert_blank:
  assumes "details_for m alert_type = Inl e"
  shows "trigger_alert m env h w alert_type file_path = (Inl e, w)"
  using assms by (simp add: trigger_alert_def)

section \<open>The hasher: chunked and one-shot digests agree\<close>

lemma absorb_append:
  "absorb H (xs @ ys) = (case absorb H xs of (H', r) \<Rightarrow> absorb H' (r @ ys))"
proof (induction H xs rule: absorb.induct)
  case (1 H bs)
  show ?case
  proof (cases "length bs < 64")
    case True
    then show ?thesis by (simp add: absorb.simps [of H bs])
  next
    case False
    then have "absorb H (bs @ ys) = absorb (compress H (take 64 bs)) (drop 64 bs @ ys)"
      by (subst absorb.simps) simp
    also have "\<dots> = (case absorb (compress H (take 64 bs)) (drop 64 bs) of
                       (H', r) \<Rightarrow> absorb H' (r @ ys))"
      using 1 False by simp
    also have "absorb (compress H (take 64 bs)) (drop 64 bs) = absorb H bs"
      using False by (simp add: absorb.simps [of H bs])
    finally show ?thesis .
  qed
qed

lemma absorb_blocks: "fst (absorb H bs) = foldl compress H (blocks64 bs)"
proof (induction H bs rule: absorb.induct)
  case (1 H bs)
  show ?case
  proof (cases "length bs < 64")
    case True
    then show ?thesis by (simp add: absorb.simps [of H bs] blocks64.simps [of bs])
  next
    case False
    then show ?thesis using 1 by (simp add: absorb.simps [of H bs] blocks64.simps [of bs])
  qed
qed

lemma absorbed_new: "absorbed sha256_new []"
  by (simp add: absorbed_def sha256_new_def absorb.simps [of _ "[]"])

lemma absorbed_update:
  assumes "absorbed acc msg"
  shows "absorbed (sha256_update acc data) (msg @ data)"
proof -
  from assms have a: "absorb sha256_iv msg = (chain acc, buffer acc)"
    and l: "total_len acc = length msg"
    by (simp_all add: absorbed_def)
  have "absorb sha256_iv (msg @ data) = absorb (chain acc) (buffer acc @ data)"
    by (simp add: absorb_append [of sha256_iv msg data] a)
  then show ?thesis
    using l by (simp add: absorbed_def sha256_update_def split: prod.splits)
qed

lemma absorbed_foldl:
  "absorbed acc msg \<Longrightarrow> absorbed (foldl sha256_update acc chunks) (msg @ concat chunks)"
proof (induction chunks arbitrary: acc msg)
  case Nil
  then show ?case by simp
next
  case (Cons c cs)
  from Cons.IH [OF absorbed_update [OF Cons.prems, of c]] show ?case by simp
qed

lemma absorbed_hexdigest:
  assumes "absorbed acc msg"
  shows "hexdigest acc = sha256_hex msg"
proof -
  from assms have a: "absorb sha256_iv msg = (chain acc, buffer acc)"
    and l: "total_len acc = length msg"
    by (simp_all add: absorbed_def)
  have "absorb sha256_iv (msg @ sha_padding (length msg))
          = absorb (chain acc) (buffer acc @ sha_padding (total_len acc))"
    by (simp add: absorb_append [of sha256_iv msg] a l)
  then have "sha256_digest acc = sha256_oneshot msg"
    by (simp add: sha256_digest_def sha256_oneshot_def absorb_blocks [symmetric])
  then show ?thesis by (simp add: hexdigest_def sha256_hex_def)
qed

text \<open>
  The loop on a stream without fault, for any positive chunk size: it returns, and the hash
  object has then taken in the bytes that were pending, in order.
\<close>

lemma read_loop_absorbed:
  "io_fault f = None \<Longrightarrow> 0 < n \<Longrightarrow> absorbed acc msg \<Longrightarrow>
     \<exists>acc'. read_loop n f acc = Inr acc' \<and> absorbed acc' (msg @ pending f)"
proof (induction n f acc arbitrary: msg rule: read_loop.induct)
  case (1 n f acc)
  show ?case
  proof (cases "pending f = []")
    case True
    with 1 show ?thesis
      by (simp add: read_loop.simps [of n f acc] read_stream_def)
  next
    case False
    let ?data = "take n (pending f)"
    let ?f' = "f\<lparr>pending := drop n (pending f)\<rparr>"
    have rs: "read_stream n f = Inr (?data, ?f')"
      using 1 by (simp add: read_stream_def)
    have ne: "?data \<noteq> []" using False 1 by simp
    have "\<exists>acc'. read_loop n ?f' (sha256_update acc ?data) = Inr acc'
            \<and> absorbed acc' ((msg @ ?data) @ pending ?f')"
      using 1 ne by (intro "1.IH" [OF rs refl]) (simp_all add: absorbed_update)
    then show ?thesis
      using ne by (simp add: read_loop.simps [of n f acc] rs)
  qed
qed

lemma hash_file_readable:
  assumes "opener file_path = Inr f" "io_fault f = None"
  shows "hash_file opener file_path = Inr (sha256_hex (pending f))"
proof -
  obtain acc' where "read_loop 65536 f sha256_new = Inr acc'" "absorbed acc' ([] @ pending f)"
    using read_loop_absorbed [OF assms(2) _ absorbed_new, of 65536] by auto
  then show ?thesis
    using assms(1) by (simp add: hash_file_def absorbed_hexdigest)
qed

lemma length_state_bytes: "length (state_bytes s) = 32"
  by (cases s) (auto simp: word_bytes_def)

lemma length_hex: "length (concat (map hex_byte bs)) = 2 * length bs"
  by (induction bs) (simp_all add: hex_byte_def)

lemma length_hexdigest: "length (hexdigest acc) = 64"
  by (simp add: hexdigest_def length_hex sha256_digest_def length_state_bytes)

lemma hash_file_nonempty:
  assumes "hash_file opener file_path = Inr d"
  shows "d \<noteq> []"
proof -
  from assms obtain acc where "d = hexdigest acc"
    by (auto simp: hash_file_def split: sum.splits)
  then have "length d = 64" by (simp add: length_hexdigest)
  then show ?thesis by auto
qed

text \<open>Every round constant is the fraction of the cube root of its prime.\<close>

lemma K256_cube_roots: "list_all (\<lambda>(p, k). cube_root_fraction p k) K256_table"
  by (simp add: K256_table_def cube_root_fraction_def)

text \<open>Two test vectors of the standard, computed by the definitions above.\<close>

lemma sha256_hex_abc: "sha256_hex [0x61, 0x62, 0x63] = abc_digest"
  unfolding abc_digest_def by code_simp

lemma sha256_hex_empty: "sha256_hex [] = empty_digest"
  unfolding empty_digest_def by code_simp

text \<open>
  C6. For every readable file (it opens and no read fails), \<^verbatim>\<open>calculate_file_hash\<close>, in
  the monitor and in the baseline generator, returns the lowercase hexadecimal one-shot
  SHA-256 of the file's whole content and leaves the log alone; and whatever the chunks
  fed to the hash object, its digest is the one-shot digest of their concatenation.
\<close>

theorem calculate_file_hash_oneshot:
  assumes "open_rb env file_path = Inr f" and "io_fault f = None"
  shows "calculate_file_hash env w file_path = (Some (sha256_hex (pending f)), w)
       \<and> calculate_file_hash_cb env w file_path = (Inr (Some (sha256_hex (pending f))), w)
       \<and> hexdigest (foldl sha256_update sha256_new chunks) = sha256_hex (concat chunks)"
proof -
  have "hash_file (open_rb env) file_path = Inr (sha256_hex (pending f))"
    using assms by (rule hash_file_readable)
  moreover have "hexdigest (foldl sha256_update sha256_new chunks) = sha256_hex (concat chunks)"
    using absorbed_foldl [OF absorbed_new, of chunks] by (simp add: absorbed_hexdigest)
  ultimately show ?thesis
    by (simp add: calculate_file_hash_def calculate_file_hash_cb_def)
qed

theorem calculate_file_hash_oneshot_witness:
  "calculate_file_hash ex_env initial_world ''/srv/bank/a.txt''
     = (Some (sha256_hex [0x61, 0x62, 0x63]), initial_world)
   \<and> calculate_file_hash_cb ex_env initial_world ''/srv/bank/a.txt''
     = (Inr (Some (sha256_hex [0x61, 0x62, 0x63])), initial_world)
   \<and> hexdigest (foldl sha256_update sha256_new [[0x61], [0x62, 0x63]])
     = sha256_hex [0x61, 0x62, 0x63]"
  using calculate_file_hash_oneshot
    [of ex_env "''/srv/bank/a.txt''" "\<lparr>pending = [0x61, 0x62, 0x63], io_fault = None\<rparr>"
        initial_world "[[0x61], [0x62, 0x63]]"]
  by (simp add: ex_env_def ex_open_def)

section \<open>What one event does\<close>

lemma process_event_caught:
  "process_event m env h w file_path change_type
     = caught (process_event_try m env h w file_path change_type)"
  by (simp add: process_event_def caught_def)

lemma caught_return: "caught (Inr u, w) = w"
  by (simp add: caught_def)

lemma process_event_created:
  assumes "relpath env file_path (monitor_dir h) = Inr rel"
  shows "process_event m env h w file_path ''CREATED'' =
           (if rel |\<notin>| fmdom (files (baseline_of h))
            then caught (trigger_alert m env h w ''New File Detected'' file_path) else w)"
  using assms by (simp add: process_event_caught process_event_try_def caught_return)

lemma process_event_deleted:
  assumes "relpath env file_path (monitor_dir h) = Inr rel"
  shows "process_event m env h w file_path ''DELETED'' =
           (if rel |\<in>| fmdom (files (baseline_of h))
            then caught (trigger_alert m env h w ''File Deleted'' file_path) else w)"
  using assms by (simp add: process_event_caught process_event_try_def caught_return)

lemma process_event_modified:
  assumes "relpath env file_path (monitor_dir h) = Inr rel"
  shows "process_event m env h w file_path ''MODIFIED'' =
           (case hash_file (open_rb env) file_path of
              Inl e \<Rightarrow> log_add [Log_error (''Hash calculation failed: '' @ exc_str e)] w
            | Inr digest \<Rightarrow>
                (case fmlookup (files (baseline_of h)) rel of
                   None \<Rightarrow> w
                 | Some entry \<Rightarrow>
                     if digest \<noteq> hash entry
                     then caught (trigger_alert m env h w ''File Modified'' file_path) else w))"
proof (cases "hash_file (open_rb env) file_path")
  case (Inl e)
  then show ?thesis
    using assms
    by (simp add: process_event_caught process_event_try_def calculate_file_hash_def caught_return)
next
  case (Inr digest)
  then have ne: "digest \<noteq> []" by (rule hash_file_nonempty)
  show ?thesis
    using assms Inr ne
    by (auto simp: process_event_caught process_event_try_def calculate_file_hash_def
          fmlookup_dom_iff caught_return split: option.splits)
qed

lemma after_event_alerts:
  "alerts (DASHBOARD_DATA (after_event m env h w)) = alerts (DASHBOARD_DATA w)"
  by (cases m) (simp_all add: after_event_def update_dashboard_data_def)

lemma after_event_raised: "alerts_raised (after_event m env h w) = alerts_raised w"
  by (cases m) (simp_all add: after_event_def update_dashboard_data_def alerts_raised_def)

lemma dispatch_directory: "is_directory ev \<Longrightarrow> dispatch m env h w ev = w"
  by (cases "event_type ev") (simp_all add: dispatch_def on_modified_def on_created_def on_deleted_def)

lemma ex_relpath_a [simp]:
  "relpath ex_env ''/srv/bank/a.txt'' (monitor_dir (ex_handler d)) = Inr ''a.txt''"
  "relpath ex_env ''/srv/bank/new.txt'' (monitor_dir (ex_handler d)) = Inr ''new.txt''"
  by (simp_all add: ex_env_def ex_relpath_def ex_handler_def)

lemma ex_files [simp]:
  "fmdom (files (baseline_of (ex_handler d))) = {|''a.txt''|}"
  "fmlookup (files (baseline_of (ex_handler d))) ''a.txt'' = Some (ex_entry d)"
  "fmlookup (files (baseline_of (ex_handler d))) ''new.txt'' = None"
  by (simp_all add: ex_handler_def ex_baseline_def)

lemma ex_no_raise [simp]:
  "\<not> notification_raises m ex_env cfg alert_type file_path details"
  by (simp add: notification_raises_def ex_env_def split: sum.splits)

lemma ex_denied_no_raise [simp]:
  "\<not> notification_raises m (ex_env\<lparr>open_rb := fs\<rparr>) cfg alert_type file_path details"
  by (simp add: notification_raises_def ex_env_def send_alert_try_def email_body_def
        split: sum.splits)

lemma ex_now_alert: "now_alert ex_env = ''2025-03-01 10:00:01''"
  by (simp add: ex_env_def)

lemma initial_alerts: "alerts (DASHBOARD_DATA initial_world) = []"
  by (simp add: initial_world_def initial_dashboard_def)

lemma initial_raised: "alerts_raised initial_world = []"
  by (simp add: alerts_raised_def initial_world_def List.map_filter_def)

lemma ex_hash_a: "hash_file (open_rb ex_env) ''/srv/bank/a.txt'' = Inr abc_digest"
  using hash_file_readable
    [of ex_open "''/srv/bank/a.txt''" "\<lparr>pending = [0x61, 0x62, 0x63], io_fault = None\<rparr>"]
  by (simp add: ex_env_def ex_open_def sha256_hex_abc)

lemma ex_hash_new:
  "hash_file (open_rb ex_env) ''/srv/bank/new.txt''
     = Inl (PyError ''FileNotFoundError'' ''No such file or directory'')"
  by (simp add: hash_file_def ex_env_def ex_open_def)

lemma digests_differ: "abc_digest \<noteq> empty_digest"
  by (simp add: abc_digest_def empty_digest_def)

section \<open>Classification of events\<close>

text \<open>
  C1. A directory event of any kind leaves the state as it is. For an event on a file
  whose path \<^verbatim>\<open>os.path.relpath\<close> makes relative to the monitored directory: a Created
  event raises exactly one alert, of type \<^verbatim>\<open>New File Detected\<close>, when the relative path
  has no entry in the baseline, and none when it has one; a Deleted event raises exactly
  one alert, of type \<^verbatim>\<open>File Deleted\<close>, when the relative path has an entry, and none
  when it has not. The alert is the one line added to the alerts raised; its record is
  appended to the bounded history, unless its notification raises.
\<close>

theorem created_deleted_classification:
  "(is_directory ev \<longrightarrow> dispatch m env h w ev = w)
   \<and> (\<not> is_directory ev \<and> relpath env (src_path ev) (monitor_dir h) = Inr rel
        \<and> event_type ev = Created \<longrightarrow>
        alerts_raised (dispatch m env h w ev) =
          alerts_raised w @
            (if rel |\<notin>| fmdom (files (baseline_of h))
             then [''New File Detected: '' @ src_path ev] else [])
        \<and> alerts (DASHBOARD_DATA (dispatch m env h w ev)) =
            (if rel |\<notin>| fmdom (files (baseline_of h))
                \<and> \<not> notification_raises m env (email_system h) ''New File Detected''
                      (src_path ev) (details_default m)
             then py_last_n 50 (alerts (DASHBOARD_DATA w) @
                    [new_alert env ''New File Detected'' (src_path ev) (details_default m)])
             else alerts (DASHBOARD_DATA w)))
   \<and> (\<not> is_directory ev \<and> relpath env (src_path ev) (monitor_dir h) = Inr rel
        \<and> event_type ev = Deleted \<longrightarrow>
        alerts_raised (dispatch m env h w ev) =
          alerts_raised w @
            (if rel |\<in>| fmdom (files (baseline_of h))
             then [''File Deleted: '' @ src_path ev] else [])
        \<and> alerts (DASHBOARD_DATA (dispatch m env h w ev)) =
            (if rel |\<in>| fmdom (files (baseline_of h))
                \<and> \<not> notification_raises m env (email_system h) ''File Deleted''
                      (src_path ev) (details_default m)
             then py_last_n 50 (alerts (DASHBOARD_DATA w) @
                    [new_alert env ''File Deleted'' (src_path ev) (details_default m)])
             else alerts (DASHBOARD_DATA w)))"
proof (intro conjI impI)
  assume "is_directory ev"
  then show "dispatch m env h w ev = w" by (rule dispatch_directory)
next
  assume "\<not> is_directory ev \<and> relpath env (src_path ev) (monitor_dir h) = Inr rel
            \<and> event_type ev = Created"
  then show "alerts_raised (dispatch m env h w ev) =
          alerts_raised w @
            (if rel |\<notin>| fmdom (files (baseline_of h))
             then [''New File Detected: '' @ src_path ev] else [])"
    and "alerts (DASHBOARD_DATA (dispatch m env h w ev)) =
            (if rel |\<notin>| fmdom (files (baseline_of h))
                \<and> \<not> notification_raises m env (email_system h) ''New File Detected''
                      (src_path ev) (details_default m)
             then py_last_n 50 (alerts (DASHBOARD_DATA w) @
                    [new_alert env ''New File Detected'' (src_path ev) (details_default m)])
             else alerts (DASHBOARD_DATA w))"
    by (simp_all add: dispatch_def on_created_def after_event_alerts after_event_raised
          process_event_created caught_trigger_alert [OF details_for_types(2)])
next
  assume "\<not> is_directory ev \<and> relpath env (src_path ev) (monitor_dir h) = Inr rel
            \<and> event_type ev = Deleted"
  then show "alerts_raised (dispatch m env h w ev) =
          alerts_raised w @
            (if rel |\<in>| fmdom (files (baseline_of h))
             then [''File Deleted: '' @ src_path ev] else [])"
    and "alerts (DASHBOARD_DATA (dispatch m env h w ev)) =
            (if rel |\<in>| fmdom (files (baseline_of h))
                \<and> \<not> notification_raises m env (email_system h) ''File Deleted''
                      (src_path ev) (details_default m)
             then py_last_n 50 (alerts (DASHBOARD_DATA w) @
                    [new_alert env ''File Deleted'' (src_path ev) (details_default m)])
             else alerts (DASHBOARD_DATA w))"
    by (simp_all add: dispatch_def on_deleted_def after_event_alerts after_event_raised
          process_event_deleted caught_trigger_alert [OF details_for_types(3)])
qed

theorem created_deleted_classification_witness:
  "alerts_raised (dispatch SafeBank_FIM ex_env (ex_handler abc_digest) initial_world
      (ex_event ''/srv/bank/new.txt'' Created)) = [''New File Detected: /srv/bank/new.txt'']
   \<and> alerts (DASHBOARD_DATA (dispatch SafeBank_FIM ex_env (ex_handler abc_digest) initial_world
      (ex_event ''/srv/bank/new.txt'' Created)))
      = [new_alert ex_env ''New File Detected'' ''/srv/bank/new.txt''
           (details_default SafeBank_FIM)]
   \<and> alerts_raised (dispatch SafeBank_FIM ex_env (ex_handler abc_digest) initial_world
      (ex_event ''/srv/bank/a.txt'' Created)) = []
   \<and> alerts_raised (dispatch Monitor_Files ex_env (ex_handler abc_digest) initial_world
      (ex_event ''/srv/bank/a.txt'' Deleted)) = [''File Deleted: /srv/bank/a.txt'']
   \<and> alerts_raised (dispatch Monitor_Files ex_env (ex_handler abc_digest) initial_world
      (ex_event ''/srv/bank/new.txt'' Deleted)) = []
   \<and> dispatch Monitor_Files ex_env (ex_handler abc_digest) initial_world
      \<lparr>src_path = ''/srv/bank/vault'', is_directory = True, event_type = Created\<rparr>
      = initial_world"
  using created_deleted_classification
      [of "ex_event ''/srv/bank/new.txt'' Created" SafeBank_FIM ex_env "ex_handler abc_digest"
          initial_world "''new.txt''"]
    created_deleted_classification
      [of "ex_event ''/srv/bank/a.txt'' Created" SafeBank_FIM ex_env "ex_handler abc_digest"
          initial_world "''a.txt''"]
    created_deleted_classification
      [of "ex_event ''/srv/bank/a.txt'' Deleted" Monitor_Files ex_env "ex_handler abc_digest"
          initial_world "''a.txt''"]
    created_deleted_classification
      [of "ex_event ''/srv/bank/new.txt'' Deleted" Monitor_Files ex_env "ex_handler abc_digest"
          initial_world "''new.txt''"]
    created_deleted_classification
      [of "\<lparr>src_path = ''/srv/bank/vault'', is_directory = True, event_type = Created\<rparr>"
          Monitor_Files ex_env "ex_handler abc_digest" initial_world "''vault''"]
  by (simp add: ex_event_def initial_raised initial_alerts py_last_n_def)

text \<open>
  C2. A Modified event on a file, its path made relative to the monitored directory. When
  the baseline has an entry for the relative path and the file's current digest is
  obtained: no alert if the digest equals the baseline's, exactly one alert, of type
  \<^verbatim>\<open>File Modified\<close>, if it differs (its record is appended to the history unless its
  notification raises). When hashing fails, no alert. When the baseline has no entry for
  the relative path, no alert.
\<close>

theorem modified_classification:
  assumes "\<not> is_directory ev" and "event_type ev = Modified"
    and "relpath env (src_path ev) (monitor_dir h) = Inr rel"
  shows
   "(fmlookup (files (baseline_of h)) rel = Some entry
       \<and> hash_file (open_rb env) (src_path ev) = Inr digest \<and> digest = hash entry \<longrightarrow>
       alerts_raised (dispatch m env h w ev) = alerts_raised w
       \<and> alerts (DASHBOARD_DATA (dispatch m env h w ev)) = alerts (DASHBOARD_DATA w))
    \<and> (fmlookup (files (baseline_of h)) rel = Some entry
       \<and> hash_file (open_rb env) (src_path ev) = Inr digest \<and> digest \<noteq> hash entry \<longrightarrow>
       alerts_raised (dispatch m env h w ev) = alerts_raised w @ [''File Modified: '' @ src_path ev]
       \<and> alerts (DASHBOARD_DATA (dispatch m env h w ev)) =
           (if notification_raises m env (email_system h) ''File Modified''
                 (src_path ev) (details_default m)
            then alerts (DASHBOARD_DATA w)
            else py_last_n 50 (alerts (DASHBOARD_DATA w) @
                   [new_alert env ''File Modified'' (src_path ev) (details_default m)])))
    \<and> (hash_file (open_rb env) (src_path ev) = Inl e \<longrightarrow>
       alerts_raised (dispatch m env h w ev) = alerts_raised w
       \<and> alerts (DASHBOARD_DATA (dispatch m env h w ev)) = alerts (DASHBOARD_DATA w))
    \<and> (fmlookup (files (baseline_of h)) rel = None \<longrightarrow>
       alerts_raised (dispatch m env h w ev) = alerts_raised w
       \<and> alerts (DASHBOARD_DATA (dispatch m env h w ev)) = alerts (DASHBOARD_DATA w))"
proof -
  have d: "dispatch m env h w ev
             = after_event m env h (process_event m env h w (src_path ev) ''MODIFIED'')"
    using assms(1,2) by (simp add: dispatch_def on_modified_def)
  note pe = process_event_modified [OF assms(3), of m w]
  show ?thesis
    by (auto simp: d after_event_alerts after_event_raised pe alerts_raised_log_add
          dashboard_log_add List.map_filter_def
          caught_trigger_alert [OF details_for_types(1)] split: sum.splits)
qed

theorem modified_classification_witness:
  "alerts_raised (dispatch SafeBank_FIM ex_env (ex_handler abc_digest) initial_world
      (ex_event ''/srv/bank/a.txt'' Modified)) = []
   \<and> alerts_raised (dispatch SafeBank_FIM ex_env (ex_handler empty_digest) initial_world
      (ex_event ''/srv/bank/a.txt'' Modified)) = [''File Modified: /srv/bank/a.txt'']
   \<and> alerts (DASHBOARD_DATA (dispatch SafeBank_FIM ex_env (ex_handler empty_digest)
      initial_world (ex_event ''/srv/bank/a.txt'' Modified)))
      = [new_alert ex_env ''File Modified'' ''/srv/bank/a.txt'' (details_default SafeBank_FIM)]
   \<and> alerts_raised (dispatch SafeBank_FIM (ex_env\<lparr>open_rb := \<lambda>p. Inl (PyError ''PermissionError'' ''Permission denied'')\<rparr>)
      (ex_handler empty_digest) initial_world (ex_event ''/srv/bank/a.txt'' Modified)) = []
   \<and> alerts_raised (dispatch Monitor_Files ex_env (ex_handler abc_digest) initial_world
      (ex_event ''/srv/bank/new.txt'' Modified)) = []"
proof -
  have nd: "\<And>p k. \<not> is_directory (ex_event p k)" "\<And>p k. event_type (ex_event p k) = k"
    "\<And>p k. src_path (ex_event p k) = p"
    by (simp_all add: ex_event_def)
  let ?denied = "ex_env\<lparr>open_rb := \<lambda>p. Inl (PyError ''PermissionError'' ''Permission denied'')\<rparr>"
  have rp: "relpath ?denied ''/srv/bank/a.txt'' (monitor_dir (ex_handler empty_digest)) = Inr ''a.txt''"
    by (simp add: ex_env_def ex_relpath_def ex_handler_def)
  have hd: "hash_file (\<lambda>p. Inl (PyError ''PermissionError'' ''Permission denied''))
               ''/srv/bank/a.txt'' = Inl (PyError ''PermissionError'' ''Permission denied'')"
    by (simp add: hash_file_def)
  show ?thesis
    using modified_classification
        [where ev = "ex_event ''/srv/bank/a.txt'' Modified" and env = ex_env
           and h = "ex_handler abc_digest" and rel = "''a.txt''"
           and entry = "ex_entry abc_digest" and digest = abc_digest
           and m = SafeBank_FIM and w = initial_world]
      modified_classification
        [where ev = "ex_event ''/srv/bank/a.txt'' Modified" and env = ex_env
           and h = "ex_handler empty_digest" and rel = "''a.txt''"
           and entry = "ex_entry empty_digest" and digest = abc_digest
           and m = SafeBank_FIM and w = initial_world]
      modified_classification
        [where ev = "ex_event ''/srv/bank/a.txt'' Modified" and env = ?denied
           and h = "ex_handler empty_digest" and rel = "''a.txt''"
           and entry = "ex_entry empty_digest" and digest = abc_digest
           and e = "PyError ''PermissionError'' ''Permission denied''"
           and m = SafeBank_FIM and w = initial_world]
      modified_classification
        [where ev = "ex_event ''/srv/bank/new.txt'' Modified" and env = ex_env
           and h = "ex_handler abc_digest" and rel = "''new.txt''"
           and entry = "ex_entry abc_digest" and digest = abc_digest
           and e = "PyError ''FileNotFoundError'' ''No such file or directory''"
           and m = Monitor_Files and w = initial_world]
    by (simp add: nd initial_raised initial_alerts py_last_n_def rp hd ex_hash_a ex_hash_new
          digests_differ ex_entry_def)
qed





lemma send_alert_try_open_rb:
  "send_alert_try (env\<lparr>open_rb := fs\<rparr>) cfg subject body = send_alert_try env cfg subject body"
  by (simp add: send_alert_try_def)

lemma email_body_open_rb:
  "email_body m (env\<lparr>open_rb := fs\<rparr>) alert_type file_path details
     = email_body m env alert_type file_path details"
  by (simp add: email_body_def)

lemma send_alert_open_rb:
  "send_alert m (env\<lparr>open_rb := fs\<rparr>) cfg w alert_type file_path details
     = send_alert m env cfg w alert_type file_path details"
  by (simp add: send_alert_def send_alert_try_open_rb email_body_open_rb Let_def
        split: sum.splits)

lemma trigger_alert_open_rb:
  "trigger_alert m (env\<lparr>open_rb := fs\<rparr>) h w alert_type file_path
     = trigger_alert m env h w alert_type file_path"
  by (simp add: trigger_alert_def send_alert_open_rb new_alert_def
        split: sum.splits prod.splits)

lemma process_event_open_rb:
  "change_type \<noteq> ''MODIFIED'' \<Longrightarrow>
     process_event m (env\<lparr>open_rb := fs\<rparr>) h w file_path change_type
       = process_event m env h w file_path change_type"
  by (cases "relpath env file_path (monitor_dir h)")
     (simp_all add: process_event_def process_event_try_def trigger_alert_open_rb)

lemma after_event_open_rb:
  "after_event m (env\<lparr>open_rb := fs\<rparr>) h w = after_event m env h w"
  by (cases m) (simp_all add: after_event_def update_dashboard_data_def)

text \<open>
  C10. Handling a Created or a Deleted event never looks at the file system: replacing the
  contents of every file by anything, also by files that cannot be opened, leaves the
  resulting state, and so the verdict and the alert, as they were.
\<close>

theorem created_deleted_ignore_content:
  "on_created m (env\<lparr>open_rb := fs\<rparr>) h w ev = on_created m env h w ev
   \<and> on_deleted m (env\<lparr>open_rb := fs\<rparr>) h w ev = on_deleted m env h w ev
   \<and> process_event m (env\<lparr>open_rb := fs\<rparr>) h w file_path ''CREATED''
       = process_event m env h w file_path ''CREATED''
   \<and> process_event m (env\<lparr>open_rb := fs\<rparr>) h w file_path ''DELETED''
       = process_event m env h w file_path ''DELETED''"
  by (simp add: on_created_def on_deleted_def process_event_open_rb after_event_open_rb)

theorem created_deleted_ignore_content_witness:
  "dispatch SafeBank_FIM (ex_env\<lparr>open_rb := \<lambda>p. Inl (PyError ''PermissionError'' ''Permission denied'')\<rparr>)
      (ex_handler abc_digest) initial_world (ex_event ''/srv/bank/new.txt'' Created)
   = dispatch SafeBank_FIM ex_env (ex_handler abc_digest) initial_world
      (ex_event ''/srv/bank/new.txt'' Created)
   \<and> dispatch SafeBank_FIM (ex_env\<lparr>open_rb := \<lambda>p. Inr \<lparr>pending = [0x7A], io_fault = None\<rparr>\<rparr>)
      (ex_handler abc_digest) initial_world (ex_event ''/srv/bank/a.txt'' Deleted)
   = dispatch SafeBank_FIM ex_env (ex_handler abc_digest) initial_world
      (ex_event ''/srv/bank/a.txt'' Deleted)"
  using created_deleted_ignore_content
    [where m = SafeBank_FIM and env = ex_env
       and fs = "\<lambda>p. Inl (PyError ''PermissionError'' ''Permission denied'')"
       and h = "ex_handler abc_digest" and w = initial_world
       and ev = "ex_event ''/srv/bank/new.txt'' Created"]
    created_deleted_ignore_content
    [where m = SafeBank_FIM and env = ex_env
       and fs = "\<lambda>p. Inr \<lparr>pending = [0x7A], io_fault = None\<rparr>"
       and h = "ex_handler abc_digest" and w = initial_world
       and ev = "ex_event ''/srv/bank/a.txt'' Deleted"]
  by (simp add: dispatch_def ex_event_def)

section \<open>The bounded alert history\<close>

lemma py_last_n_twice: "py_last_n 50 (py_last_n 50 xs @ [a]) = py_last_n 50 (xs @ [a])"
proof (cases "length xs \<le> 50")
  case True
  then show ?thesis by (simp add: py_last_n_def)
next
  case False
  then have "Suc (length xs - 50) = length xs - 49" by arith
  with False show ?thesis by (simp add: py_last_n_def)
qed

lemma length_py_last_n: "length (py_last_n n xs) \<le> n"
  by (simp add: py_last_n_def)

lemma trigger_alert_completes:
  "(fst (trigger_alert m env h w alert_type file_path) = Inr ())
     = completes m h (env, alert_type, file_path)"
proof (cases "details_for m alert_type")
  case (Inl e)
  then show ?thesis by (simp add: trigger_alert_blank completes_def)
next
  case (Inr details)
  then show ?thesis by (simp add: trigger_alert_done(3) [OF Inr] completes_def)
qed

lemma caught_trigger_history:
  "alerts (DASHBOARD_DATA (caught (trigger_alert m env h w alert_type file_path)))
     = (if completes m h (env, alert_type, file_path)
        then py_last_n 50 (alerts (DASHBOARD_DATA w) @ [alert_of m (env, alert_type, file_path)])
        else alerts (DASHBOARD_DATA w))"
proof (cases "details_for m alert_type")
  case (Inl e)
  then show ?thesis
    by (simp add: trigger_alert_blank completes_def caught_dashboard)
next
  case (Inr details)
  then have ne: "py_split alert_type \<noteq> []"
    by (auto simp: details_for_def split: list.splits)
  from details_for_words [OF ne, of m] Inr
  have d: "details = dict_get (details_table m) (last (py_split alert_type)) (details_default m)"
    by simp
  show ?thesis
    by (simp add: caught_trigger_alert(2) [OF Inr] completes_def Inr alert_of_def d)
qed

lemma trigger_all_history:
  assumes "alerts (DASHBOARD_DATA w) = py_last_n 50 pre"
  shows "alerts (DASHBOARD_DATA (trigger_all m h w ts))
           = py_last_n 50 (pre @ map (alert_of m) (filter (completes m h) ts))"
  using assms
proof (induction ts arbitrary: w pre)
  case Nil
  then show ?case by simp
next
  case (Cons t ts)
  obtain env ty p where t: "t = (env, ty, p)" by (cases t)
  let ?w' = "caught (trigger_alert m env h w ty p)"
  show ?case
  proof (cases "completes m h t")
    case True
    have "alerts (DASHBOARD_DATA ?w') = py_last_n 50 ((pre @ [alert_of m t]))"
      using True Cons.prems by (simp add: t caught_trigger_history py_last_n_twice)
    from Cons.IH [OF this] True show ?thesis by (simp add: t)
  next
    case False
    have "alerts (DASHBOARD_DATA ?w') = py_last_n 50 pre"
      using False Cons.prems by (simp add: t caught_trigger_history)
    from Cons.IH [OF this] False show ?thesis by (simp add: t)
  qed
qed

lemma ex_completes:
  "completes m (ex_handler d) (ex_env, ''File Deleted'', p)"
  by (simp add: completes_def details_for_types)

text \<open>
  C3. Starting from an empty history, after any sequence of alert triggers the history
  holds the last 50 of the alerts whose trigger ran to its end, oldest first, and so never
  more than 50 entries. When every trigger of the sequence completes, these are the last
  50 of all the alerts triggered, and after 51 triggers the first alert is gone and alerts
  2 to 51 are there in order. A trigger completes when it gets its details and its
  notification does not raise; one that does not leaves the history as it was.
\<close>

theorem alert_history_bounded:
  assumes "alerts (DASHBOARD_DATA w) = []"
  shows "alerts (DASHBOARD_DATA (trigger_all m h w ts))
           = py_last_n 50 (map (alert_of m) (filter (completes m h) ts))
       \<and> length (alerts (DASHBOARD_DATA (trigger_all m h w ts))) \<le> 50
       \<and> (length (filter (completes m h) ts) = 51 \<longrightarrow>
            alerts (DASHBOARD_DATA (trigger_all m h w ts))
              = map (alert_of m) (tl (filter (completes m h) ts)))
       \<and> ((\<forall>t \<in> set ts. completes m h t) \<longrightarrow>
            alerts (DASHBOARD_DATA (trigger_all m h w ts)) = py_last_n 50 (map (alert_of m) ts)
            \<and> (length ts = 51 \<longrightarrow>
                 alerts (DASHBOARD_DATA (trigger_all m h w ts)) = map (alert_of m) (tl ts)))
       \<and> (\<forall>(env :: env) alert_type file_path (w' :: world).
            completes m h (env, alert_type, file_path)
              = (fst (trigger_alert m env h w' alert_type file_path) = Inr ()))"
proof -
  have "alerts (DASHBOARD_DATA w) = py_last_n 50 []"
    using assms by (simp add: py_last_n_def)
  from trigger_all_history [OF this, where m = m and h = h and ts = ts]
  have b: "alerts (DASHBOARD_DATA (trigger_all m h w ts))
             = py_last_n 50 (map (alert_of m) (filter (completes m h) ts))"
    by simp
  have c: "\<And>cs. length cs = 51 \<Longrightarrow> py_last_n 50 (map (alert_of m) cs) = map (alert_of m) (tl cs)"
    by (simp add: py_last_n_def drop_Suc map_tl)
  have f: "(\<forall>t \<in> set ts. completes m h t) \<Longrightarrow> filter (completes m h) ts = ts"
    by (rule filter_True) simp
  show ?thesis
    using b c f by (auto simp: length_py_last_n trigger_alert_completes)
qed

theorem alert_history_bounded_witness:
  "alerts (DASHBOARD_DATA (trigger_all SafeBank_FIM (ex_handler abc_digest) initial_world
       (map (\<lambda>i. (ex_env, ''File Deleted'', ''/srv/bank/f'' @ str_nat i)) [1..<52])))
     = map (alert_of SafeBank_FIM)
         (tl (map (\<lambda>i. (ex_env, ''File Deleted'', ''/srv/bank/f'' @ str_nat i)) [1..<52]))
   \<and> length (alerts (DASHBOARD_DATA (trigger_all SafeBank_FIM (ex_handler abc_digest)
       initial_world
       (map (\<lambda>i. (ex_env, ''File Deleted'', ''/srv/bank/f'' @ str_nat i)) [1..<52])))) = 50"
proof -
  let ?ts = "map (\<lambda>i. (ex_env, ''File Deleted'', ''/srv/bank/f'' @ str_nat i)) [1..<52]"
  have f: "filter (completes SafeBank_FIM (ex_handler abc_digest)) ?ts = ?ts"
    by (rule filter_True) (auto simp: ex_completes)
  have l: "length ?ts = 51" by simp
  from alert_history_bounded [OF initial_alerts, where m = SafeBank_FIM
      and h = "ex_handler abc_digest" and ts = ?ts]
  have "length (filter (completes SafeBank_FIM (ex_handler abc_digest)) ?ts) = 51 \<longrightarrow>
          alerts (DASHBOARD_DATA (trigger_all SafeBank_FIM (ex_handler abc_digest)
            initial_world ?ts))
          = map (alert_of SafeBank_FIM)
              (tl (filter (completes SafeBank_FIM (ex_handler abc_digest)) ?ts))"
    by blast
  then have "alerts (DASHBOARD_DATA (trigger_all SafeBank_FIM (ex_handler abc_digest)
          initial_world ?ts)) = map (alert_of SafeBank_FIM) (tl ?ts)"
    unfolding f using l by blast
  then show ?thesis using l by (simp del: upt_Suc)
qed

section \<open>The alert pipeline\<close>

lemma ex_send_refused:
  "send_alert_try ex_env ex_config subject body
     = Inl (PyError ''ConnectionRefusedError'' ''Connection refused'')"
  "send_alert_try ex_strict_env ex_config subject body
     = Inl (PyError ''ConnectionRefusedError'' ''Connection refused'')"
  by (simp_all add: send_alert_try_def try_bind_def config_item_def ex_env_def ex_config_def
        ex_strict_env_def)

lemma ex_strict_refuses:
  "stdout_write ex_strict_env (fallback_line m alert_type ex_odd_path details)
     = Inl (PyError ''UnicodeEncodeError'' ''surrogates not allowed'')"
  by (simp add: ex_strict_env_def ex_strict_stdout_def fallback_line_def ex_odd_path_def)

lemma ex_strict_raises:
  "notification_raises m ex_strict_env ex_config alert_type ex_odd_path details"
  by (simp add: notification_raises_def ex_send_refused ex_strict_refuses)

lemma ex_strict_relpath:
  "relpath ex_strict_env ex_odd_path (monitor_dir (ex_handler d))
     = Inr (''report'' @ [CHR 0xFF] @ ''.csv'')"
  by (simp add: ex_strict_env_def ex_env_def ex_relpath_def ex_handler_def ex_odd_path_def)

text \<open>
  When the notification does not raise, a failed delivery is a \<^verbatim>\<open>False\<close> return, and
  the alert is appended to the history all the same.
\<close>

lemma delivery_failure_keeps_alert:
  assumes "details_for m alert_type = Inr details"
    and "\<not> notification_raises m env (email_system h) alert_type file_path details"
  shows "fst (send_alert m env (email_system h) w0 alert_type file_path details) =
           Inr (case send_alert_try env (email_system h) (email_subject m alert_type)
                       (email_body m env alert_type file_path details) of
                  Inl e \<Rightarrow> False | Inr u \<Rightarrow> True)"
    and "fst (trigger_alert m env h w alert_type file_path) = Inr ()"
    and "alerts (DASHBOARD_DATA (snd (trigger_alert m env h w alert_type file_path)))
           = py_last_n 50 (alerts (DASHBOARD_DATA w) @ [new_alert env alert_type file_path details])"
  using assms(2) trigger_alert_done(2,3)
    [OF assms(1), where env = env and h = h and w = w and file_path = file_path]
  by (simp_all add: send_alert_returns)

text \<open>
  C4 fails on the code. The handler of \<^verbatim>\<open>send_alert\<close> prints the alert, and what that
  \<^verbatim>\<open>print\<close> raises is not caught there: with the mail server refusing connections and a
  standard output that cannot encode the file's name, \<^verbatim>\<open>send_alert\<close> raises instead of
  returning \<^verbatim>\<open>False\<close>, the exception passes through \<^verbatim>\<open>_trigger_alert\<close> before the
  append, and the alert, though raised, never reaches the history.
\<close>

theorem notification_failure_loses_alert:
  "fst (send_alert Monitor_Files ex_strict_env ex_config initial_world ''New File Detected''
          ex_odd_path (details_default Monitor_Files))
     = Inl (PyError ''UnicodeEncodeError'' ''surrogates not allowed'')
   \<and> fst (trigger_alert Monitor_Files ex_strict_env (ex_handler abc_digest) initial_world
          ''New File Detected'' ex_odd_path) \<noteq> Inr ()
   \<and> alerts_raised (dispatch Monitor_Files ex_strict_env (ex_handler abc_digest) initial_world
        (ex_event ex_odd_path Created)) = [''New File Detected: '' @ ex_odd_path]
   \<and> alerts (DASHBOARD_DATA (dispatch Monitor_Files ex_strict_env (ex_handler abc_digest)
        initial_world (ex_event ex_odd_path Created))) = []
   \<and> alerts (DASHBOARD_DATA (dispatch SafeBank_FIM ex_strict_env (ex_handler abc_digest)
        initial_world (ex_event ex_odd_path Created))) = []"
proof -
  have s: "fst (send_alert Monitor_Files ex_strict_env ex_config initial_world
              ''New File Detected'' ex_odd_path (details_default Monitor_Files))
            = Inl (PyError ''UnicodeEncodeError'' ''surrogates not allowed'')"
    using send_alert_raises [OF ex_strict_raises, where m = Monitor_Files
        and alert_type = "''New File Detected''"
        and details = "details_default Monitor_Files" and w = initial_world]
    by (simp add: ex_strict_refuses)
  have r: "\<And>m. notification_raises m ex_strict_env (email_system (ex_handler abc_digest))
             ''New File Detected'' ex_odd_path (details_default m)"
    by (simp add: ex_handler_def ex_strict_raises)
  have t: "fst (trigger_alert Monitor_Files ex_strict_env (ex_handler abc_digest) initial_world
             ''New File Detected'' ex_odd_path) \<noteq> Inr ()"
    using trigger_alert_done(3) [OF details_for_types(2), where m = Monitor_Files
        and env = ex_strict_env and h = "ex_handler abc_digest" and w = initial_world
        and file_path = ex_odd_path] r
    by simp
  have n: "(''report'' @ [CHR 0xFF] @ ''.csv'') |\<notin>| fmdom (files (baseline_of (ex_handler abc_digest)))"
    by simp
  have d: "\<And>m. dispatch m ex_strict_env (ex_handler abc_digest) initial_world
             (ex_event ex_odd_path Created)
           = after_event m ex_strict_env (ex_handler abc_digest)
               (caught (trigger_alert m ex_strict_env (ex_handler abc_digest) initial_world
                  ''New File Detected'' ex_odd_path))"
    using n
    by (simp add: dispatch_def on_created_def ex_event_def
          process_event_created [OF ex_strict_relpath])
  show ?thesis
    using s t r
    by (simp add: d after_event_alerts after_event_raised
          caught_trigger_alert [OF details_for_types(2)] initial_raised initial_alerts)
qed

text \<open>
  C5 fails on the code. The dictionary of details has the keys \<^verbatim>\<open>MODIFIED\<close>,
  \<^verbatim>\<open>CREATED\<close> and \<^verbatim>\<open>DELETED\<close>, but it is asked for the last word of the alert
  type, and the three alert types the handler passes end in \<^verbatim>\<open>Modified\<close>,
  \<^verbatim>\<open>Detected\<close> and \<^verbatim>\<open>Deleted\<close>: every alert gets the fallback text. A Modified event
  on a baselined file whose content has changed is recorded with the fallback of its
  module, not with the text the dictionary holds for a modification.
\<close>

theorem details_lookup_misses:
  "details_for m ''File Modified'' = Inr (details_default m)
   \<and> details_for m ''New File Detected'' = Inr (details_default m)
   \<and> details_for m ''File Deleted'' = Inr (details_default m)
   \<and> dict_get (details_table SafeBank_FIM) ''MODIFIED'' (details_default SafeBank_FIM)
        = ''Unauthorized content modification detected''
   \<and> map a_details (alerts (DASHBOARD_DATA (dispatch SafeBank_FIM ex_env
        (ex_handler empty_digest) initial_world (ex_event ''/srv/bank/a.txt'' Modified))))
        = [''Security-related change detected'']
   \<and> map a_details (alerts (DASHBOARD_DATA (dispatch Monitor_Files ex_env
        (ex_handler empty_digest) initial_world (ex_event ''/srv/bank/a.txt'' Modified))))
        = [''Unknown change'']"
proof -
  have d: "\<And>m. dispatch m ex_env (ex_handler empty_digest) initial_world
            (ex_event ''/srv/bank/a.txt'' Modified)
          = after_event m ex_env (ex_handler empty_digest)
              (caught (trigger_alert m ex_env (ex_handler empty_digest) initial_world
                 ''File Modified'' ''/srv/bank/a.txt''))"
    by (simp add: dispatch_def on_modified_def ex_event_def
          process_event_modified [OF ex_relpath_a(1)] ex_hash_a digests_differ ex_entry_def)
  have a: "\<And>m. map a_details (alerts (DASHBOARD_DATA (dispatch m ex_env
        (ex_handler empty_digest) initial_world (ex_event ''/srv/bank/a.txt'' Modified))))
        = [details_default m]"
    by (simp add: d after_event_alerts caught_trigger_alert(2) [OF details_for_types(1)]
          py_last_n_def initial_alerts new_alert_def)
  show ?thesis
    by (simp add: details_for_types a)
       (simp add: dict_get_def details_table_def details_default_def)
qed

section \<open>The status snapshot and start-up\<close>

text \<open>
  In \<^verbatim>\<open>SafeBank_FIM/monitor.py\<close> the count of monitored files is recomputed, as the
  number of entries of the baseline, when the handler is built and after every file event;
  the number of alerts is the length of the history whenever the page is rendered.
\<close>

lemma update_dashboard_data_snapshot:
  "filesTracked (snapshot (update_dashboard_data env h w))
     = int (fcard (fmdom (files (baseline_of h))))
   \<and> alertCount (snapshot (update_dashboard_data env h w))
     = length (alerts (DASHBOARD_DATA (update_dashboard_data env h w)))"
  by (simp add: snapshot_def update_dashboard_data_def)

lemma SafeBank_FIM_snapshot:
  assumes "\<not> is_directory ev" and "event_type ev \<noteq> Other_kind"
  shows "filesTracked (snapshot (dispatch SafeBank_FIM env h w ev))
           = int (fcard (fmdom (files (baseline_of h))))
       \<and> alertCount (snapshot (dispatch SafeBank_FIM env h w ev))
           = length (alerts (DASHBOARD_DATA (dispatch SafeBank_FIM env h w ev)))"
  using assms
  by (cases "event_type ev")
     (simp_all add: dispatch_def on_modified_def on_created_def on_deleted_def after_event_def
        snapshot_def update_dashboard_data_def)

text \<open>
  C8 fails on \<^verbatim>\<open>monitor_files.py\<close>. There the count is written once, by
  \<^verbatim>\<open>load_baseline\<close>, from \<^verbatim>\<open>metadata.total_files\<close>, and is not the number of entries
  when the two disagree: for a baseline that lists one file and whose metadata says three,
  the snapshot shows three files tracked, where the other module shows one.
\<close>

theorem file_count_from_metadata:
  "fst (load_baseline Monitor_Files (ex_env\<lparr>read_baseline_file := Inr ex_stale_baseline\<rparr>)
          initial_world) = ex_stale_baseline
   \<and> fcard (fmdom (files ex_stale_baseline)) = 1
   \<and> filesTracked (snapshot (snd (load_baseline Monitor_Files
          (ex_env\<lparr>read_baseline_file := Inr ex_stale_baseline\<rparr>) initial_world))) = 3
   \<and> filesTracked (snapshot (snd (new_handler SafeBank_FIM ex_env ex_stale_baseline ex_config
          ''/srv/bank'' initial_world))) = 1"
  by (simp add: load_baseline_def metadata_get_def ex_stale_baseline_def snapshot_def
        new_handler_def after_event_def update_dashboard_data_def Let_def fcard_finsert_if)

lemma files_empty_baseline: "files empty_baseline = fmempty"
  by (simp add: empty_baseline_def)

text \<open>
  C9. When the baseline file cannot be opened or parsed, \<^verbatim>\<open>load_baseline\<close> returns the
  empty store (metadata without any key, no file); the handler is built on it, and from
  then on every Created event on a file whose path can be made relative raises exactly one
  \<^verbatim>\<open>New File Detected\<close> alert (its record is appended to the history unless its
  notification raises).
\<close>

theorem load_failure_cold_start:
  assumes "read_baseline_file env0 = Inl e"
  shows "fst (load_baseline m env0 w0) = empty_baseline
       \<and> metadata empty_baseline = Some \<lparr>created = None, directory = None, total_files = None\<rparr>
       \<and> files empty_baseline = fmempty
       \<and> (\<exists>h w1. new_handler m env0 (fst (load_baseline m env0 w0)) cfg dir
                    (snd (load_baseline m env0 w0)) = (h, w1)
              \<and> baseline_of h = empty_baseline
              \<and> (\<forall>(env :: env) (w :: world) (ev :: event) rel.
                    \<not> is_directory ev \<and> event_type ev = Created
                    \<and> relpath env (src_path ev) dir = Inr rel \<longrightarrow>
                    alerts_raised (dispatch m env h w ev)
                      = alerts_raised w @ [''New File Detected: '' @ src_path ev]
                    \<and> alerts (DASHBOARD_DATA (dispatch m env h w ev))
                      = (if notification_raises m env cfg ''New File Detected''
                              (src_path ev) (details_default m)
                         then alerts (DASHBOARD_DATA w)
                         else py_last_n 50 (alerts (DASHBOARD_DATA w) @
                                [new_alert env ''New File Detected'' (src_path ev)
                                   (details_default m)]))))"
proof -
  have l: "fst (load_baseline m env0 w0) = empty_baseline"
    using assms by (simp add: load_baseline_def)
  let ?h = "\<lparr>baseline_of = empty_baseline, email_system = cfg, monitor_dir = dir\<rparr>"
  have n: "new_handler m env0 (fst (load_baseline m env0 w0)) cfg dir
             (snd (load_baseline m env0 w0))
           = (?h, after_event m env0 ?h (snd (load_baseline m env0 w0)))"
    by (simp add: new_handler_def l Let_def)
  have c: "\<And>(env :: env) (w :: world) (ev :: event) rel. \<not> is_directory ev \<Longrightarrow>
             event_type ev = Created \<Longrightarrow>
             relpath env (src_path ev) dir = Inr rel \<Longrightarrow>
             alerts_raised (dispatch m env ?h w ev)
               = alerts_raised w @ [''New File Detected: '' @ src_path ev]
             \<and> alerts (DASHBOARD_DATA (dispatch m env ?h w ev))
               = (if notification_raises m env cfg ''New File Detected''
                       (src_path ev) (details_default m)
                  then alerts (DASHBOARD_DATA w)
                  else py_last_n 50 (alerts (DASHBOARD_DATA w) @
                         [new_alert env ''New File Detected'' (src_path ev)
                            (details_default m)]))"
  proof -
    fix env :: env and w :: world and ev :: event and rel :: string
    assume a: "\<not> is_directory ev" "event_type ev = Created"
      and r: "relpath env (src_path ev) dir = Inr rel"
    have r': "relpath env (src_path ev) (monitor_dir ?h) = Inr rel" using r by simp
    show "alerts_raised (dispatch m env ?h w ev)
               = alerts_raised w @ [''New File Detected: '' @ src_path ev]
             \<and> alerts (DASHBOARD_DATA (dispatch m env ?h w ev))
               = (if notification_raises m env cfg ''New File Detected''
                       (src_path ev) (details_default m)
                  then alerts (DASHBOARD_DATA w)
                  else py_last_n 50 (alerts (DASHBOARD_DATA w) @
                         [new_alert env ''New File Detected'' (src_path ev)
                            (details_default m)]))"
      using a
      by (simp add: dispatch_def on_created_def after_event_alerts after_event_raised
            process_event_created [OF r'] files_empty_baseline
            caught_trigger_alert [OF details_for_types(2)])
  qed
  have m: "metadata empty_baseline = Some \<lparr>created = None, directory = None, total_files = None\<rparr>"
    by (simp add: empty_baseline_def)
  have b: "baseline_of ?h = empty_baseline" by simp
  show ?thesis
    using l m files_empty_baseline n b c by blast
qed

theorem load_failure_cold_start_witness:
  "fst (load_baseline SafeBank_FIM ex_env initial_world) = empty_baseline
   \<and> alerts_raised (dispatch SafeBank_FIM ex_env
        (fst (new_handler SafeBank_FIM ex_env (fst (load_baseline SafeBank_FIM ex_env initial_world))
               ex_config ''/srv/bank'' (snd (load_baseline SafeBank_FIM ex_env initial_world))))
        initial_world (ex_event ''/srv/bank/a.txt'' Created))
      = [''New File Detected: /srv/bank/a.txt'']"
proof -
  have f: "read_baseline_file ex_env = Inl (PyError ''FileNotFoundError'' ''No such file or directory'')"
    by (simp add: ex_env_def)
  have r: "relpath ex_env ''/srv/bank/a.txt'' ''/srv/bank'' = Inr ''a.txt''"
    by (simp add: ex_env_def ex_relpath_def)
  from load_failure_cold_start [OF f, where m = SafeBank_FIM and ?w0.0 = initial_world
      and cfg = ex_config and dir = "''/srv/bank''"]
  obtain h w1 where l: "fst (load_baseline SafeBank_FIM ex_env initial_world) = empty_baseline"
    and n: "new_handler SafeBank_FIM ex_env (fst (load_baseline SafeBank_FIM ex_env initial_world))
              ex_config ''/srv/bank'' (snd (load_baseline SafeBank_FIM ex_env initial_world)) = (h, w1)"
    and c: "\<And>(env :: env) (w :: world) (ev :: event) rel.
                    \<not> is_directory ev \<and> event_type ev = Created
                    \<and> relpath env (src_path ev) ''/srv/bank'' = Inr rel \<Longrightarrow>
                    alerts_raised (dispatch SafeBank_FIM env h w ev)
                      = alerts_raised w @ [''New File Detected: '' @ src_path ev]"
    by blast
  have "alerts_raised (dispatch SafeBank_FIM ex_env h initial_world (ex_event ''/srv/bank/a.txt'' Created))
          = [''New File Detected: /srv/bank/a.txt'']"
    using c [of "ex_event ''/srv/bank/a.txt'' Created" ex_env "''a.txt''" initial_world] r
    by (simp add: ex_event_def initial_raised)
  then show ?thesis using l n by simp
qed

end
